theory Spec2Isabelle
  imports Complex_Main "HOL-Library.AList"
begin

section \<open>JavaScript values\<close>

text \<open>
  The importer (\<^verbatim>\<open>bin/importer\<close>) works on untyped JavaScript values: the attribute maps
  read from LDIF, JSON lines or UFDS, and whatever \<^verbatim>\<open>JSON.parse\<close> produces. Numbers are
  the IEEE doubles of the language, of which the code only inspects whether one is
  \<^verbatim>\<open>NaN\<close> and whether it is falsy; finite numbers are kept as exact rationals (both zeros are
  the one rational \<open>0\<close>). Strings are lists of 8-bit characters. An object is the ordered
  list of its own properties; array and object identity is not modelled (the code compares
  with \<^verbatim>\<open>===\<close> against primitive literals only), and neither are the members inherited from
  \<^verbatim>\<open>Object.prototype\<close> (none of the attribute names the decoder reads is one of them).
\<close>

datatype jsnum = NaN | PosInf | NegInf | Fin rat

datatype jsval =
    JUndefined
  | JNull
  | JBool bool
  | JNum jsnum
  | JStr string
  | JArr "jsval list"
  | JObj "(string \<times> jsval) list"

type_synonym obj = "(string \<times> jsval) list"

text \<open>ToBoolean: what \<^verbatim>\<open>if (v)\<close> tests.\<close>

fun truthy :: "jsval \<Rightarrow> bool" where
  "truthy JUndefined = False"
| "truthy JNull = False"
| "truthy (JBool b) = b"
| "truthy (JNum NaN) = False"
| "truthy (JNum PosInf) = True"
| "truthy (JNum NegInf) = True"
| "truthy (JNum (Fin q)) = (q \<noteq> 0)"
| "truthy (JStr s) = (s \<noteq> [])"
| "truthy (JArr xs) = True"
| "truthy (JObj kvs) = True"

text \<open>\<^verbatim>\<open>typeof (v) === 'string'\<close> and \<^verbatim>\<open>Array.isArray(v)\<close>.\<close>

fun is_string :: "jsval \<Rightarrow> bool" where
  "is_string (JStr s) = True"
| "is_string _ = False"

fun isArray :: "jsval \<Rightarrow> bool" where
  "isArray (JArr xs) = True"
| "isArray _ = False"

text \<open>
  Strict equality \<^verbatim>\<open>===\<close> on primitives. \<^verbatim>\<open>NaN\<close> is not equal to anything, itself
  included. Two arrays or two objects are equal only when they are the same object, which
  never happens where the code uses \<^verbatim>\<open>===\<close> (one operand is always a literal).
\<close>

fun num_eq :: "jsnum \<Rightarrow> jsnum \<Rightarrow> bool" where
  "num_eq NaN _ = False"
| "num_eq _ NaN = False"
| "num_eq a b = (a = b)"

fun strict_eq :: "jsval \<Rightarrow> jsval \<Rightarrow> bool" where
  "strict_eq JUndefined JUndefined = True"
| "strict_eq JNull JNull = True"
| "strict_eq (JBool a) (JBool b) = (a = b)"
| "strict_eq (JNum a) (JNum b) = num_eq a b"
| "strict_eq (JStr a) (JStr b) = (a = b)"
| "strict_eq _ _ = False"

subsection \<open>Own properties of an object\<close>

text \<open>
  \<^verbatim>\<open>obj[a]\<close> reads a property and is \<^verbatim>\<open>undefined\<close> when there is none; \<^verbatim>\<open>obj[a] = v\<close>
  replaces the value in place or appends a new property; \<^verbatim>\<open>delete obj[a]\<close> removes it.
\<close>

definition has_prop :: "obj \<Rightarrow> string \<Rightarrow> bool" where
  "has_prop ob a = (map_of ob a \<noteq> None)"

definition get_prop :: "obj \<Rightarrow> string \<Rightarrow> jsval" where
  "get_prop ob a = (case map_of ob a of None \<Rightarrow> JUndefined | Some v \<Rightarrow> v)"

definition set_prop :: "string \<Rightarrow> jsval \<Rightarrow> obj \<Rightarrow> obj" where
  "set_prop a v ob = AList.update a v ob"

definition delete_prop :: "string \<Rightarrow> obj \<Rightarrow> obj" where
  "delete_prop a ob = AList.delete a ob"

subsection \<open>The runtime and the logger\<close>

text \<open>
  The built-ins the importer calls are parameters of the model: \<^verbatim>\<open>Number(v)\<close>,
  \<^verbatim>\<open>JSON.parse(v)\<close> (\<open>None\<close> when it throws; it takes any value and converts it to a
  string first) and \<^verbatim>\<open>'' + new Buffer(s, 'base64')\<close>. Every general theorem below holds
  for all of them.
\<close>

record host =
  Number :: "jsval \<Rightarrow> jsnum"
  JSON_parse :: "jsval \<Rightarrow> jsval option"
  base64 :: "string \<Rightarrow> string"

text \<open>A bunyan log call is recorded as its level and message.\<close>

datatype level = Info | Warn | Error

type_synonym log = "(level \<times> string) list"

section \<open>decode\<close>

definition attrs2ignore :: "string list" where
  "attrs2ignore = [''dn'', ''objectclass'', ''controls'', ''overprovision_cpu'',
                   ''overprovision_memory'', ''overprovision_storage'',
                   ''overprovision_network'', ''overprovision_io'', ''urn'']"

definition attrs2numerify :: "string list" where
  "attrs2numerify = [''max_physical_memory'', ''max_swap'', ''vcpus'', ''cpu_cap'',
                     ''max_lwps'', ''quota'', ''zfs_io_priority'', ''fss'',
                     ''cpu_burst_ratio'', ''ram_ratio'']"

definition attrs2boolean :: "string list" where
  "attrs2boolean = [''active'', ''default'']"

text \<open>
  The body of \<^verbatim>\<open>attrs2numerify.forEach\<close>:
  \<^verbatim>\<open>
  if (obj[a]) obj[a] = Number(obj[a]);
  if (obj[a] === NaN) log.warn({ package: obj }, 'Number is NaN');
  \<close>
\<close>

fun numerify :: "host \<Rightarrow> string \<Rightarrow> obj \<times> log \<Rightarrow> obj \<times> log" where
  "numerify H a (ob, lg) =
     (let ob1 = (if truthy (get_prop ob a)
                 then set_prop a (JNum (Number H (get_prop ob a))) ob else ob);
          lg1 = (if strict_eq (get_prop ob1 a) (JNum NaN)
                 then lg @ [(Warn, ''Number is NaN'')] else lg)
      in (ob1, lg1))"

text \<open>
  The body of \<^verbatim>\<open>attrs2boolean.forEach\<close>:
  \<^verbatim>\<open>
  if (obj[a] === undefined) return;
  obj[a] = (obj[a] === 'true' || obj[a] === true);
  \<close>
\<close>

definition booleanify :: "string \<Rightarrow> obj \<Rightarrow> obj" where
  "booleanify a ob =
     (if strict_eq (get_prop ob a) JUndefined then ob
      else set_prop a (JBool (strict_eq (get_prop ob a) (JStr ''true'')
                               \<or> strict_eq (get_prop ob a) (JBool True))) ob)"

fun decode_networks :: "host \<Rightarrow> obj \<times> log \<Rightarrow> obj \<times> log" where
  "decode_networks H (ob, lg) =
     (if truthy (get_prop ob ''networks'') then
        (if is_string (get_prop ob ''networks'') then
           (case JSON_parse H (get_prop ob ''networks'') of
              Some v \<Rightarrow> (set_prop ''networks'' v ob, lg)
            | None \<Rightarrow> (set_prop ''networks'' (JArr []) ob,
                       lg @ [(Error, ''Error importing networks'')]))
         else if \<not> isArray (get_prop ob ''networks'') then
           (set_prop ''networks'' (JArr []) ob, lg @ [(Error, ''Error importing networks'')])
         else (ob, lg))
      else (ob, lg))"

text \<open>The change from \<^verbatim>\<open>owner_uuid\<close> to \<^verbatim>\<open>owner_uuids\<close>.\<close>

fun decode_owner :: "host \<Rightarrow> obj \<times> log \<Rightarrow> obj \<times> log" where
  "decode_owner H (ob, lg) =
     (if truthy (get_prop ob ''owner_uuid'') then
        (let (ob1, lg1) =
           (if is_string (get_prop ob ''owner_uuid'') then
              (case JSON_parse H (get_prop ob ''owner_uuid'') of
                 Some v \<Rightarrow> (set_prop ''owner_uuids'' v ob, lg)
               | None \<Rightarrow> (set_prop ''owner_uuids'' (JArr [get_prop ob ''owner_uuid'']) ob, lg))
            else if \<not> isArray (get_prop ob ''owner_uuid'') then
              (set_prop ''owner_uuids'' (JArr []) ob, lg @ [(Error, ''Error importing owners'')])
            else (set_prop ''owner_uuids'' (get_prop ob ''owner_uuid'') ob, lg))
         in (delete_prop ''owner_uuid'' ob1, lg1))
      else (ob, lg))"

fun decode_traits :: "host \<Rightarrow> obj \<times> log \<Rightarrow> obj \<times> log" where
  "decode_traits H (ob, lg) =
     (if truthy (get_prop ob ''traits'') then
        (case JSON_parse H (get_prop ob ''traits'') of
           Some v \<Rightarrow> (set_prop ''traits'' v ob, lg)
         | None \<Rightarrow> (set_prop ''traits'' (JObj []) ob, lg @ [(Error, ''Error importing traits'')]))
      else (ob, lg))"

fun decode_min_platform :: "host \<Rightarrow> obj \<times> log \<Rightarrow> obj \<times> log" where
  "decode_min_platform H (ob, lg) =
     (if truthy (get_prop ob ''min_platform'') then
        (case JSON_parse H (get_prop ob ''min_platform'') of
           Some v \<Rightarrow> (set_prop ''min_platform'' v ob, lg)
         | None \<Rightarrow> (set_prop ''min_platform'' (JObj []) ob,
                    lg @ [(Error, ''Error importing min_platform'')]))
      else (ob, lg))"

text \<open>
  \<^verbatim>\<open>decode(obj, log)\<close> changes \<^verbatim>\<open>obj\<close> in place and returns it; the model returns the
  changed object together with the entries the call wrote to \<^verbatim>\<open>log\<close>.
\<close>

definition decode :: "host \<Rightarrow> obj \<Rightarrow> obj \<times> log" where
  "decode H ob =
     (let ob1 = fold delete_prop attrs2ignore ob;
          (ob2, lg2) = fold (numerify H) attrs2numerify (ob1, []);
          ob3 = fold booleanify attrs2boolean ob2
      in decode_min_platform H (decode_traits H (decode_owner H (decode_networks H (ob3, lg2)))))"

text \<open>
  The JSON loader hands \<^verbatim>\<open>decode\<close> whatever a line parsed to. On \<^verbatim>\<open>null\<close> the first
  \<^verbatim>\<open>delete obj[a]\<close> throws a TypeError (\<open>None\<close>); on any other value that is not an
  object none of the attributes exists, every guard is false and the value comes back as it
  is.
\<close>

fun decode_value :: "host \<Rightarrow> jsval \<Rightarrow> (jsval \<times> log) option" where
  "decode_value H (JObj ob) = (case decode H ob of (ob', lg) \<Rightarrow> Some (JObj ob', lg))"
| "decode_value H JNull = None"
| "decode_value H JUndefined = None"
| "decode_value H v = Some (v, [])"

section \<open>Loaders\<close>

text \<open>\<^verbatim>\<open>text.split('\n')\<close>: the empty text gives one empty line.\<close>

fun split_lines :: "string \<Rightarrow> string list" where
  "split_lines [] = [[]]"
| "split_lines (c # cs) =
     (if c = CHR 0x0A then [] # split_lines cs
      else (case split_lines cs of [] \<Rightarrow> [[c]] | l # ls \<Rightarrow> (c # l) # ls))"

text \<open>
  The result of \<^verbatim>\<open>fs.readFile\<close> is the error or the text; a loader passes the error to its
  callback (\<open>Inl\<close>) or the packages (\<open>Inr\<close>, here with the log entries written on the way).
\<close>

subsection \<open>JSON lines\<close>

text \<open>
  The callback of \<^verbatim>\<open>jsonRows.split('\n').map\<close>: an exception of \<^verbatim>\<open>JSON.parse\<close> or of
  \<^verbatim>\<open>decode\<close> is caught, logged, and the line becomes \<^verbatim>\<open>null\<close>.
\<close>

definition json_row :: "host \<Rightarrow> string \<Rightarrow> jsval \<times> log" where
  "json_row H json =
     (case JSON_parse H (JStr json) of
        None \<Rightarrow> (JNull, [(Error, ''Error parsing JSON'')])
      | Some v \<Rightarrow>
          (case decode_value H v of
             None \<Rightarrow> (JNull, [(Error, ''Error parsing JSON'')])
           | Some (p, lg) \<Rightarrow> (p, lg)))"

definition loadJsonPackages :: "host \<Rightarrow> jsval + string \<Rightarrow> jsval + jsval list \<times> log" where
  "loadJsonPackages H file =
     (case file of
        Inl err \<Rightarrow> Inl err
      | Inr jsonRows \<Rightarrow>
          (let rows = map (json_row H) (split_lines jsonRows)
           in Inr (filter truthy (map fst rows), concat (map snd rows))))"

subsection \<open>LDIF\<close>

text \<open>
  \<^verbatim>\<open>line.match(/^([^:]+?):(:? .+)$/)\<close>: the name is what stands before the first colon and
  is not empty; the value is the rest of the line, which is a space, or a colon and a space,
  followed by at least one character. The dot matches no line terminator, of which an 8-bit
  string has two: line feed and carriage return.
\<close>

definition line_terminator :: "char \<Rightarrow> bool" where
  "line_terminator c = (c = CHR 0x0A \<or> c = CHR 0x0D)"

fun ldif_value :: "string \<Rightarrow> bool" where
  "ldif_value (c # d # w) =
     (if c = CHR '':'' then d = CHR '' '' \<and> w \<noteq> [] \<and> \<not> list_ex line_terminator w
      else c = CHR '' '' \<and> \<not> list_ex line_terminator (d # w))"
| "ldif_value _ = False"

definition ldif_match :: "string \<Rightarrow> (string \<times> string) option" where
  "ldif_match line =
     (let name = takeWhile (\<lambda>c. c \<noteq> CHR '':'') line;
          rest = dropWhile (\<lambda>c. c \<noteq> CHR '':'') line
      in if name \<noteq> [] \<and> rest \<noteq> [] \<and> ldif_value (tl rest)
         then Some (name, tl rest) else None)"

text \<open>
  The body of \<^verbatim>\<open>ldif.split('\n').forEach\<close>, on the state of its closure: the packages
  pushed so far, the object \<^verbatim>\<open>lookup\<close> being assembled, and the log. An attribute whose
  name is that of a member of \<^verbatim>\<open>Object.prototype\<close> (\<^verbatim>\<open>constructor\<close>, \<^verbatim>\<open>toString\<close>
  and the like), for which \<^verbatim>\<open>lookup[name]\<close> is the inherited member, is outside the model.
\<close>

fun ldif_line :: "host \<Rightarrow> string \<Rightarrow> jsval list \<times> obj \<times> log \<Rightarrow> jsval list \<times> obj \<times> log" where
  "ldif_line H line (packages, lookup, lg) =
     (if line = [] then
        (if length lookup > 0 then
           (case decode H lookup of
              (pkg, lg') \<Rightarrow>
                ((if truthy (get_prop pkg ''uuid'') then packages @ [JObj pkg] else packages),
                 [], lg @ lg'))
         else (packages, lookup, lg))
      else
        (case ldif_match line of
           None \<Rightarrow> (packages, lookup, lg)
         | Some (name, v) \<Rightarrow>
             (let orig = get_prop lookup name;
                  val = (if hd v = CHR '':'' then base64 H (drop 2 v) else drop 1 v)
              in if truthy orig then
                   (case orig of
                      JArr xs \<Rightarrow> (packages, set_prop name (JArr (xs @ [JStr val])) lookup, lg)
                    | _ \<Rightarrow> (packages, set_prop name (JArr [orig, JStr val]) lookup, lg))
                 else (packages, set_prop name (JStr val) lookup, lg))))"

definition ldif_lines :: "host \<Rightarrow> string list \<Rightarrow> jsval list \<times> obj \<times> log" where
  "ldif_lines H ls = fold (ldif_line H) ls ([], [], [])"

definition loadLdifPackages :: "host \<Rightarrow> jsval + string \<Rightarrow> jsval + jsval list \<times> log" where
  "loadLdifPackages H file =
     (case file of
        Inl err \<Rightarrow> Inl err
      | Inr ldif \<Rightarrow>
          (case ldif_lines H (split_lines ldif) of
             (packages, lookup, lg) \<Rightarrow> Inr (packages, lg)))"

subsection \<open>UFDS\<close>

text \<open>
  The LDAP session either fails (connection, bind, search, an error event, a non-zero end
  status) or ends after a sequence of entries, each decoded as it arrives.
\<close>

definition loadUfdsPackages :: "host \<Rightarrow> jsval + obj list \<Rightarrow> jsval + jsval list \<times> log" where
  "loadUfdsPackages H session =
     (case session of
        Inl err \<Rightarrow> Inl err
      | Inr entries \<Rightarrow>
          Inr (map (\<lambda>e. JObj (fst (decode H e))) entries, concat (map (\<lambda>e. snd (decode H e)) entries)))"

section \<open>Saving to PAPI\<close>

text \<open>
  \<^verbatim>\<open>lib/backend\<close> and \<^verbatim>\<open>lib/validations\<close> are parameters: the error of \<^verbatim>\<open>backend.init\<close>
  (falsy when there is none), \<^verbatim>\<open>validations.validate(pkg, backend.schema)\<close> (\<open>None\<close> for
  a falsy result, otherwise the array of field and message pairs), and \<^verbatim>\<open>createPkg\<close> and
  \<^verbatim>\<open>updatePkg\<close>, which take the store, the key and the package and give the error passed
  to the callback (falsy when there is none) and the store afterwards.
\<close>

record 's backend =
  init_err :: jsval
  validate :: "jsval \<Rightarrow> (string \<times> string) list option"
  createPkg :: "'s \<Rightarrow> jsval \<Rightarrow> jsval \<Rightarrow> jsval \<times> 's"
  updatePkg :: "'s \<Rightarrow> jsval \<Rightarrow> jsval \<Rightarrow> jsval \<times> 's"

record config =
  dryrun :: bool
  overwrite :: bool

text \<open>\<^verbatim>\<open>pkg.uuid\<close> on any value that is neither \<^verbatim>\<open>null\<close> nor \<^verbatim>\<open>undefined\<close>.\<close>

fun member :: "jsval \<Rightarrow> string \<Rightarrow> jsval" where
  "member (JObj ob) a = get_prop ob a"
| "member _ a = JUndefined"

text \<open>
  \<^verbatim>\<open>savePkg\<close> on the store, the counter \<^verbatim>\<open>success\<close> and the log. It always ends in
  \<^verbatim>\<open>next()\<close> without an error, so the pipeline goes through every package in order.
\<close>

fun savePkg :: "config \<Rightarrow> 's backend \<Rightarrow> jsval \<Rightarrow> 's \<times> nat \<times> log \<Rightarrow> 's \<times> nat \<times> log" where
  "savePkg cfg B pkg (st, success, lg) =
     (case validate B pkg of
        Some validationErrs \<Rightarrow> (st, success, lg @ [(Error, ''Error importing package'')])
      | None \<Rightarrow>
          if dryrun cfg then (st, success, lg @ [(Info, ''Package imported'')])
          else
            (case (if overwrite cfg then updatePkg B else createPkg B) st (member pkg ''uuid'') pkg of
               (err2, st') \<Rightarrow>
                 if strict_eq err2 (JStr ''ObjectAlreadyExistsError'')
                 then (st', success, lg @ [(Warn, ''Package already exists'')])
                 else if truthy err2
                 then (st', success, lg @ [(Error, ''Error importing package'')])
                 else (st', success + 1, lg @ [(Info, ''Package imported'')])))"

text \<open>
  \<^verbatim>\<open>savePapiPackages\<close> ends the process with status 1 through \<^verbatim>\<open>perror\<close> when
  \<^verbatim>\<open>backend.init\<close> fails (\<open>Inl 1\<close>); otherwise it runs the pipeline, logs the count and
  calls \<^verbatim>\<open>callback()\<close> with no argument.
\<close>

definition savePapiPackages ::
  "jsval list \<Rightarrow> config \<Rightarrow> 's backend \<Rightarrow> 's \<Rightarrow> nat + 's \<times> nat \<times> log" where
  "savePapiPackages packages cfg B st =
     (if truthy (init_err B) then Inl 1
      else (case fold (savePkg cfg B) packages (st, 0, []) of
              (st', success, lg) \<Rightarrow> Inr (st', success, lg @ [(Info, ''%d packages imported to PAPI'')])))"

section \<open>main\<close>

text \<open>
  The options as \<^verbatim>\<open>nopt\<close> parsed them (an option not given is \<^verbatim>\<open>undefined\<close>), and the
  outside world: the files by path and the outcome of the LDAP session.
\<close>

record opts =
  opt_help :: bool
  url :: "string option"
  ldif :: "string option"
  json :: "string option"
  opt_dryrun :: bool
  opt_overwrite :: bool

record world =
  readFile :: "string \<Rightarrow> jsval + string"
  ufds :: "jsval + obj list"

fun given :: "string option \<Rightarrow> bool" where
  "given None = False"
| "given (Some s) = (s \<noteq> [])"

text \<open>
  \<^verbatim>\<open>selectPackageSource\<close> and the call of the loader it returns. With no source at all it
  goes to \<^verbatim>\<open>perror\<close>, which \<^verbatim>\<open>parseOpts\<close> has excluded before.
\<close>

definition load :: "host \<Rightarrow> world \<Rightarrow> opts \<Rightarrow> jsval + jsval list \<times> log" where
  "load H W os =
     (if given (json os) then loadJsonPackages H (readFile W (the (json os)))
      else if given (ldif os) then loadLdifPackages H (readFile W (the (ldif os)))
      else if given (url os) then loadUfdsPackages H (ufds W)
      else Inl (JObj [(''stack'', JNull), (''message'', JStr ''Error selecting package source'')]))"

text \<open>
  The exit status of \<^verbatim>\<open>main\<close>: \<^verbatim>\<open>usage(0)\<close> when help is asked or no source is given,
  \<^verbatim>\<open>perror\<close> (status 1) when the loader or \<^verbatim>\<open>backend.init\<close> fails, and otherwise the
  \<^verbatim>\<open>process.exit(0)\<close> of the callback given to \<^verbatim>\<open>savePapiPackages\<close>.
\<close>

definition main :: "host \<Rightarrow> world \<Rightarrow> 's backend \<Rightarrow> 's \<Rightarrow> opts \<Rightarrow> nat" where
  "main H W B st os =
     (if opt_help os \<or> \<not> (given (url os) \<or> given (ldif os) \<or> given (json os)) then 0
      else (case load H W os of
              Inl err \<Rightarrow> 1
            | Inr (packages, lg) \<Rightarrow>
                (case savePapiPackages packages
                        \<lparr>dryrun = opt_dryrun os, overwrite = opt_overwrite os\<rparr> B st of
                   Inl code \<Rightarrow> code
                 | Inr fin \<Rightarrow> 0)))"

section \<open>A reference runtime\<close>

text \<open>
  To run the importer on concrete inputs, the three built-ins are implemented here after
  the language standard, on 8-bit strings and exact rationals: rounding to a double and
  overflow to infinity are left out, an escape for a character beyond the 8-bit range is
  rejected, a number
  that is not an integer has no string form, and the bytes decoded from base64 are taken as
  characters one by one.
\<close>

subsection \<open>Number\<close>

definition is_digit :: "char \<Rightarrow> bool" where
  "is_digit c = (48 \<le> (of_char c :: nat) \<and> (of_char c :: nat) \<le> 57)"

definition hex_val :: "char \<Rightarrow> nat option" where
  "hex_val c =
     (let n = (of_char c :: nat)
      in if 48 \<le> n \<and> n \<le> 57 then Some (n - 48)
         else if 97 \<le> n \<and> n \<le> 102 then Some (n - 87)
         else if 65 \<le> n \<and> n \<le> 70 then Some (n - 55)
         else None)"

text \<open>The value of a string of digits in a base; \<open>None\<close> when a character is no such digit.\<close>

fun digits_from :: "nat \<Rightarrow> nat \<Rightarrow> string \<Rightarrow> nat option" where
  "digits_from base acc [] = Some acc"
| "digits_from base acc (c # cs) =
     (case hex_val c of
        None \<Rightarrow> None
      | Some d \<Rightarrow> if d < base then digits_from base (base * acc + d) cs else None)"

definition digits :: "nat \<Rightarrow> string \<Rightarrow> nat option" where
  "digits base s = (if s = [] then None else digits_from base 0 s)"

text \<open>An exponent part: empty, or \<^verbatim>\<open>e\<close>, a sign and digits.\<close>

definition exponent :: "string \<Rightarrow> int option" where
  "exponent s =
     (case s of
        [] \<Rightarrow> Some 0
      | c # r \<Rightarrow>
          if c = CHR ''e'' \<or> c = CHR ''E'' then
            (case r of
               [] \<Rightarrow> None
             | d # r' \<Rightarrow>
                 if d = CHR ''-'' then map_option (\<lambda>n. - int n) (digits 10 r')
                 else if d = CHR ''+'' then map_option int (digits 10 r')
                 else map_option int (digits 10 r))
          else None)"

definition scale :: "nat \<Rightarrow> nat \<Rightarrow> int \<Rightarrow> rat" where
  "scale mantissa places e =
     (if e < 0 then of_nat mantissa / (10 ^ places * 10 ^ nat (- e))
      else of_nat mantissa * 10 ^ nat e / 10 ^ places)"

text \<open>
  An unsigned decimal literal: digits, an optional fraction, an optional exponent, with a
  digit before or after the point.
\<close>

definition decimal :: "string \<Rightarrow> rat option" where
  "decimal s =
     (let ip = takeWhile is_digit s;
          r1 = dropWhile is_digit s;
          fp = (case r1 of [] \<Rightarrow> [] | c # r \<Rightarrow> if c = CHR ''.'' then takeWhile is_digit r else []);
          r2 = (case r1 of [] \<Rightarrow> [] | c # r \<Rightarrow> if c = CHR ''.'' then dropWhile is_digit r else r1)
      in if ip = [] \<and> fp = [] then None
         else (case (digits_from 10 0 (ip @ fp), exponent r2) of
                 (Some m, Some e) \<Rightarrow> Some (scale m (length fp) e)
               | _ \<Rightarrow> None))"

definition str_white_space :: "char \<Rightarrow> bool" where
  "str_white_space c = ((of_char c :: nat) \<in> {9, 10, 11, 12, 13, 32, 160})"

definition trim :: "string \<Rightarrow> string" where
  "trim s = rev (dropWhile str_white_space (rev (dropWhile str_white_space s)))"

definition unsigned_number :: "string \<Rightarrow> jsnum" where
  "unsigned_number s =
     (if s = ''Infinity'' then PosInf
      else (case decimal s of Some q \<Rightarrow> Fin q | None \<Rightarrow> NaN))"

definition negate :: "jsnum \<Rightarrow> jsnum" where
  "negate n = (case n of NaN \<Rightarrow> NaN | PosInf \<Rightarrow> NegInf | NegInf \<Rightarrow> PosInf | Fin q \<Rightarrow> Fin (- q))"

definition radix_literal :: "string \<Rightarrow> nat option" where
  "radix_literal s =
     (case s of
        z # x # r \<Rightarrow>
          if z \<noteq> CHR ''0'' then None
          else if x = CHR ''x'' \<or> x = CHR ''X'' then digits 16 r
          else if x = CHR ''o'' \<or> x = CHR ''O'' then digits 8 r
          else if x = CHR ''b'' \<or> x = CHR ''B'' then digits 2 r
          else None
      | _ \<Rightarrow> None)"

definition string_to_number :: "string \<Rightarrow> jsnum" where
  "string_to_number s =
     (let t = trim s
      in case t of
           [] \<Rightarrow> Fin 0
         | c # r \<Rightarrow>
             (case radix_literal t of
                Some n \<Rightarrow> Fin (of_nat n)
              | None \<Rightarrow>
                  if c = CHR ''-'' then negate (unsigned_number r)
                  else if c = CHR ''+'' then unsigned_number r
                  else unsigned_number t))"

text \<open>
  \<^verbatim>\<open>Number\<close> of an array goes through its string, the elements joined by commas: with two
  elements or more that string is no number, with one it is the string of the element.
\<close>

fun to_number :: "jsval \<Rightarrow> jsnum" where
  "to_number JUndefined = NaN"
| "to_number JNull = Fin 0"
| "to_number (JBool b) = (if b then Fin 1 else Fin 0)"
| "to_number (JNum n) = n"
| "to_number (JStr s) = string_to_number s"
| "to_number (JObj ob) = NaN"
| "to_number (JArr []) = Fin 0"
| "to_number (JArr [JUndefined]) = Fin 0"
| "to_number (JArr [JNull]) = Fin 0"
| "to_number (JArr [JBool b]) = NaN"
| "to_number (JArr [JNum n]) = n"
| "to_number (JArr [JStr s]) = string_to_number s"
| "to_number (JArr [JObj ob]) = NaN"
| "to_number (JArr [JArr xs]) = to_number (JArr xs)"
| "to_number (JArr (x # y # zs)) = NaN"

subsection \<open>JSON.parse\<close>

definition json_ws :: "char \<Rightarrow> bool" where
  "json_ws c = ((of_char c :: nat) \<in> {9, 10, 13, 32})"

definition skip_ws :: "string \<Rightarrow> string" where
  "skip_ws s = dropWhile json_ws s"

definition literal :: "string \<Rightarrow> string \<Rightarrow> string option" where
  "literal w s = (if take (length w) s = w then Some (drop (length w) s) else None)"

text \<open>The characters of a string after its opening quote, up to the closing one.\<close>

fun json_chars :: "string \<Rightarrow> string \<Rightarrow> (string \<times> string) option" where
  "json_chars acc [] = None"
| "json_chars acc (c # cs) =
     (if c = CHR 0x22 then Some (rev acc, cs)
      else if (of_char c :: nat) < 32 then None
      else if c = CHR 0x5C then
        (case cs of
           [] \<Rightarrow> None
         | e # r \<Rightarrow>
             if e = CHR 0x22 \<or> e = CHR 0x5C \<or> e = CHR ''/'' then json_chars (e # acc) r
             else if e = CHR ''b'' then json_chars (CHR 0x08 # acc) r
             else if e = CHR ''f'' then json_chars (CHR 0x0C # acc) r
             else if e = CHR ''n'' then json_chars (CHR 0x0A # acc) r
             else if e = CHR ''r'' then json_chars (CHR 0x0D # acc) r
             else if e = CHR ''t'' then json_chars (CHR 0x09 # acc) r
             else if e = CHR ''u'' \<and> length r \<ge> 4 then
               (case digits 16 (take 4 r) of
                  Some n \<Rightarrow> if n < 256 then json_chars (char_of n # acc) (drop 4 r) else None
                | None \<Rightarrow> None)
             else None)
      else json_chars (c # acc) cs)"

text \<open>
  A number: an optional minus, an integer part without a leading zero, an optional fraction
  and an optional exponent.
\<close>

definition json_number :: "string \<Rightarrow> (jsval \<times> string) option" where
  "json_number s =
     (let neg = (s \<noteq> [] \<and> hd s = CHR ''-'');
          u = (if neg then tl s else s);
          ip = takeWhile is_digit u;
          r1 = dropWhile is_digit u;
          dot = (r1 \<noteq> [] \<and> hd r1 = CHR ''.'');
          fp = (if dot then takeWhile is_digit (tl r1) else []);
          r2 = (if dot then dropWhile is_digit (tl r1) else r1);
          ex = (r2 \<noteq> [] \<and> (hd r2 = CHR ''e'' \<or> hd r2 = CHR ''E''));
          sg = (ex \<and> tl r2 \<noteq> [] \<and> (hd (tl r2) = CHR ''+'' \<or> hd (tl r2) = CHR ''-''));
          r3 = (if sg then tl (tl r2) else if ex then tl r2 else r2);
          ed = (if ex then takeWhile is_digit r3 else []);
          r4 = (if ex then dropWhile is_digit r3 else r2)
      in if ip = [] \<or> (length ip > 1 \<and> hd ip = CHR ''0'') \<or> (dot \<and> fp = []) \<or> (ex \<and> ed = [])
         then None
         else (case (digits_from 10 0 (ip @ fp), digits_from 10 0 ed) of
                 (Some m, Some e) \<Rightarrow>
                   (let q = scale m (length fp)
                              (if sg \<and> hd (tl r2) = CHR ''-'' then - int e else int e)
                    in Some (JNum (Fin (if neg then - q else q)), r4))
               | _ \<Rightarrow> None))"

text \<open>
  The recursive descent, with a bound on the number of calls (the text is finite; twice its
  length and two is more than any parse needs).
\<close>

fun json_value :: "nat \<Rightarrow> string \<Rightarrow> (jsval \<times> string) option"
  and json_elements :: "nat \<Rightarrow> jsval list \<Rightarrow> string \<Rightarrow> (jsval \<times> string) option"
  and json_members :: "nat \<Rightarrow> obj \<Rightarrow> string \<Rightarrow> (jsval \<times> string) option" where
  "json_value 0 s = None"
| "json_value (Suc n) s =
     (case s of
        [] \<Rightarrow> None
      | c # r \<Rightarrow>
          if c = CHR ''n'' then map_option (Pair JNull) (literal ''null'' s)
          else if c = CHR ''t'' then map_option (Pair (JBool True)) (literal ''true'' s)
          else if c = CHR ''f'' then map_option (Pair (JBool False)) (literal ''false'' s)
          else if c = CHR 0x22 then
            (case json_chars [] r of None \<Rightarrow> None | Some (str, r') \<Rightarrow> Some (JStr str, r'))
          else if c = CHR ''['' then
            (case skip_ws r of
               [] \<Rightarrow> None
             | d # r' \<Rightarrow> if d = CHR '']'' then Some (JArr [], r') else json_elements n [] (d # r'))
          else if c = CHR 0x7B then
            (case skip_ws r of
               [] \<Rightarrow> None
             | d # r' \<Rightarrow> if d = CHR 0x7D then Some (JObj [], r') else json_members n [] (d # r'))
          else json_number s)"
| "json_elements 0 acc s = None"
| "json_elements (Suc n) acc s =
     (case json_value n s of
        None \<Rightarrow> None
      | Some (v, r) \<Rightarrow>
          (case skip_ws r of
             [] \<Rightarrow> None
           | d # r' \<Rightarrow>
               if d = CHR '','' then json_elements n (acc @ [v]) (skip_ws r')
               else if d = CHR '']'' then Some (JArr (acc @ [v]), r')
               else None))"
| "json_members 0 acc s = None"
| "json_members (Suc n) acc s =
     (case s of
        [] \<Rightarrow> None
      | q # r0 \<Rightarrow>
          if q \<noteq> CHR 0x22 then None
          else
            (case json_chars [] r0 of
               None \<Rightarrow> None
             | Some (k, r1) \<Rightarrow>
                 (case skip_ws r1 of
                    [] \<Rightarrow> None
                  | c # r2 \<Rightarrow>
                      if c \<noteq> CHR '':'' then None
                      else
                        (case json_value n (skip_ws r2) of
                           None \<Rightarrow> None
                         | Some (v, r3) \<Rightarrow>
                             (case skip_ws r3 of
                                [] \<Rightarrow> None
                              | d # r4 \<Rightarrow>
                                  if d = CHR '','' then json_members n (set_prop k v acc) (skip_ws r4)
                                  else if d = CHR 0x7D then Some (JObj (set_prop k v acc), r4)
                                  else None)))))"

definition json_text :: "string \<Rightarrow> jsval option" where
  "json_text s =
     (case json_value (2 * length s + 2) (skip_ws s) of
        None \<Rightarrow> None
      | Some (v, r) \<Rightarrow> if skip_ws r = [] then Some v else None)"

text \<open>The string of a value, for the argument of \<^verbatim>\<open>JSON.parse\<close> that is no string.\<close>

fun decimal_digits :: "nat \<Rightarrow> nat \<Rightarrow> string" where
  "decimal_digits 0 n = []"
| "decimal_digits (Suc k) n =
     (if n < 10 then [char_of (48 + n)]
      else decimal_digits k (n div 10) @ [char_of (48 + n mod 10)])"

definition integer_string :: "int \<Rightarrow> string" where
  "integer_string i =
     (if i < 0 then CHR ''-'' # decimal_digits (Suc (nat (- i))) (nat (- i))
      else decimal_digits (Suc (nat i)) (nat i))"

definition number_string :: "jsnum \<Rightarrow> string option" where
  "number_string n =
     (case n of
        NaN \<Rightarrow> Some ''NaN''
      | PosInf \<Rightarrow> Some ''Infinity''
      | NegInf \<Rightarrow> Some ''-Infinity''
      | Fin q \<Rightarrow>
          if snd (quotient_of q) = 1 \<and> \<bar>fst (quotient_of q)\<bar> < 10 ^ 21
          then Some (integer_string (fst (quotient_of q))) else None)"

fun join :: "string option list \<Rightarrow> string option" where
  "join [] = Some []"
| "join [x] = x"
| "join (x # y # zs) =
     (case (x, join (y # zs)) of
        (Some a, Some b) \<Rightarrow> Some (a @ '','' @ b)
      | _ \<Rightarrow> None)"

fun to_string :: "jsval \<Rightarrow> string option"
  and element_string :: "jsval \<Rightarrow> string option" where
  "to_string JUndefined = Some ''undefined''"
| "to_string JNull = Some ''null''"
| "to_string (JBool b) = Some (if b then ''true'' else ''false'')"
| "to_string (JNum n) = number_string n"
| "to_string (JStr s) = Some s"
| "to_string (JObj ob) = Some ''[object Object]''"
| "to_string (JArr xs) = join (map element_string xs)"
| "element_string JUndefined = Some []"
| "element_string JNull = Some []"
| "element_string (JBool b) = Some (if b then ''true'' else ''false'')"
| "element_string (JNum n) = number_string n"
| "element_string (JStr s) = Some s"
| "element_string (JObj ob) = Some ''[object Object]''"
| "element_string (JArr xs) = join (map element_string xs)"

definition json_parse :: "jsval \<Rightarrow> jsval option" where
  "json_parse v = (case to_string v of None \<Rightarrow> None | Some s \<Rightarrow> json_text s)"

subsection \<open>Base64\<close>

definition base64_alphabet :: string where
  "base64_alphabet = ''ABCDEFGHIJKLMNOPQRSTUVWXYZabcdefghijklmnopqrstuvwxyz0123456789+/''"

fun position :: "char \<Rightarrow> string \<Rightarrow> nat" where
  "position c [] = 0"
| "position c (d # ds) = (if c = d then 0 else Suc (position c ds))"

fun octets :: "nat list \<Rightarrow> nat list" where
  "octets (a # b # c # d # r) =
     (a * 4 + b div 16) # ((b mod 16) * 16 + c div 4) # ((c mod 4) * 64 + d) # octets r"
| "octets [a, b, c] = [a * 4 + b div 16, (b mod 16) * 16 + c div 4]"
| "octets [a, b] = [a * 4 + b div 16]"
| "octets _ = []"

definition base64_decode :: "string \<Rightarrow> string" where
  "base64_decode s =
     map char_of
       (octets (map (\<lambda>c. position c base64_alphabet)
                  (filter (\<lambda>c. c \<in> set base64_alphabet)
                     (takeWhile (\<lambda>c. c \<noteq> CHR ''='') s))))"

definition node :: host where
  "node = \<lparr>Number = to_number, JSON_parse = json_parse, base64 = base64_decode\<rparr>"

section \<open>The reconciliation the pipeline is compared with\<close>

text \<open>
  The outcomes of the specification, and its reconciliation of a sequence of records when
  \<^verbatim>\<open>overwrite\<close> is not set and the run is not a dry run, in the specification's words: an
  invalid record is skipped and the store is not contacted; a valid record is written with a
  create-only write under its \<^verbatim>\<open>uuid\<close>; when the store reports that the key exists the
  record is a skipped duplicate, on any other error it has failed, and otherwise it is
  imported. The store is threaded from one record to the next.
\<close>

datatype disposition = Imported | SkippedDuplicate | SkippedInvalid | Failed

fun create_only :: "'s backend \<Rightarrow> jsval list \<Rightarrow> 's \<Rightarrow> disposition list \<times> 's" where
  "create_only B [] st = ([], st)"
| "create_only B (pkg # pkgs) st =
     (case validate B pkg of
        Some errs \<Rightarrow> (case create_only B pkgs st of (ds, st') \<Rightarrow> (SkippedInvalid # ds, st'))
      | None \<Rightarrow>
          (case createPkg B st (member pkg ''uuid'') pkg of
             (err, st1) \<Rightarrow>
               (case create_only B pkgs st1 of
                  (ds, st') \<Rightarrow>
                    ((if err = JStr ''ObjectAlreadyExistsError'' then SkippedDuplicate
                      else if truthy err then Failed else Imported) # ds, st'))))"

text \<open>What the importer logs for an outcome: a duplicate at warning level, not as an error.\<close>

fun logged :: "disposition \<Rightarrow> level \<times> string" where
  "logged Imported = (Info, ''Package imported'')"
| "logged SkippedDuplicate = (Warn, ''Package already exists'')"
| "logged SkippedInvalid = (Error, ''Error importing package'')"
| "logged Failed = (Error, ''Error importing package'')"

section \<open>Sample backends and files\<close>

text \<open>
  Two stores to run the pipeline on. The first keeps the keys it holds: \<^verbatim>\<open>createPkg\<close>
  answers \<^verbatim>\<open>'ObjectAlreadyExistsError'\<close> for a key it has and stores a new one,
  \<^verbatim>\<open>updatePkg\<close> creates or replaces. The second rejects every write with another error.
  Both initialise without error and validate every package.
\<close>

fun accept :: "jsval \<Rightarrow> (string \<times> string) list option" where
  "accept pkg = None"

fun memory_create :: "jsval list \<Rightarrow> jsval \<Rightarrow> jsval \<Rightarrow> jsval \<times> jsval list" where
  "memory_create keys k pkg =
     (if k \<in> set keys then (JStr ''ObjectAlreadyExistsError'', keys) else (JUndefined, keys @ [k]))"

fun memory_update :: "jsval list \<Rightarrow> jsval \<Rightarrow> jsval \<Rightarrow> jsval \<times> jsval list" where
  "memory_update keys k pkg = (JUndefined, if k \<in> set keys then keys else keys @ [k])"

definition memory_backend :: "jsval list backend" where
  "memory_backend =
     \<lparr>init_err = JUndefined, validate = accept,
      createPkg = memory_create, updatePkg = memory_update\<rparr>"

fun broken_write :: "jsval list \<Rightarrow> jsval \<Rightarrow> jsval \<Rightarrow> jsval \<times> jsval list" where
  "broken_write keys k pkg = (JStr ''InternalError'', keys)"

definition broken_backend :: "jsval list backend" where
  "broken_backend =
     \<lparr>init_err = JUndefined, validate = accept,
      createPkg = broken_write, updatePkg = broken_write\<rparr>"

text \<open>A world with one JSON file of one package, and the options that select it.\<close>

fun sample_files :: "string \<Rightarrow> jsval + string" where
  "sample_files path =
     (if path = ''packages.json'' then Inr ''{\"uuid\":\"u1\"}'' else Inl (JStr ''ENOENT''))"

definition sample_world :: world where
  "sample_world = \<lparr>readFile = sample_files, ufds = Inl (JStr ''ECONNREFUSED'')\<rparr>"

definition sample_opts :: opts where
  "sample_opts =
     \<lparr>opt_help = False, url = None, ldif = None, json = Some ''packages.json'',
      opt_dryrun = False, opt_overwrite = False\<rparr>"

section \<open>Properties of decode\<close>

subsection \<open>Properties and steps\<close>

lemma map_of_set_prop [simp]: "map_of (set_prop a v ob) = (map_of ob)(a \<mapsto> v)"
  by (simp add: set_prop_def update_conv')

lemma map_of_delete_prop [simp]: "map_of (delete_prop a ob) = (map_of ob)(a := None)"
  by (simp add: delete_prop_def delete_conv')

lemma strict_eq_NaN [simp]: "strict_eq v (JNum NaN) = False"
proof (cases v)
  case (JNum n)
  then show ?thesis by (cases n) simp_all
qed simp_all

lemma map_of_fold_delete:
  "map_of (fold delete_prop as ob) b = (if b \<in> set as then None else map_of ob b)"
  by (induction as arbitrary: ob) simp_all

lemma numerify_eq:
  "numerify H a (ob, lg) =
     ((if truthy (get_prop ob a) then set_prop a (JNum (Number H (get_prop ob a))) ob else ob), lg)"
  by (simp add: Let_def)

lemma snd_fold_numerify: "snd (fold (numerify H) as (ob, lg)) = lg"
  by (induction as arbitrary: ob) (simp_all add: numerify_eq)

lemma map_of_fold_numerify_other:
  "b \<notin> set as \<Longrightarrow> map_of (fst (fold (numerify H) as (ob, lg))) b = map_of ob b"
  by (induction as arbitrary: ob) (simp_all add: numerify_eq)

lemma map_of_fold_numerify:
  "distinct as \<Longrightarrow> a \<in> set as \<Longrightarrow>
   map_of (fst (fold (numerify H) as (ob, lg))) a =
     (if truthy (get_prop ob a) then Some (JNum (Number H (get_prop ob a))) else map_of ob a)"
proof (induction as arbitrary: ob)
  case Nil
  then show ?case by simp
next
  case (Cons x xs)
  show ?case
  proof (cases "x = a")
    case True
    with Cons.prems have "a \<notin> set xs" by simp
    with True show ?thesis
      by (simp add: numerify_eq map_of_fold_numerify_other)
  next
    case False
    with Cons.prems have "distinct xs" "a \<in> set xs" by simp_all
    from Cons.IH [OF this] False show ?thesis
      by (simp add: numerify_eq get_prop_def)
  qed
qed

lemma map_of_booleanify_other:
  "b \<noteq> a \<Longrightarrow> map_of (booleanify a ob) b = map_of ob b"
  by (simp add: booleanify_def)

lemma map_of_fold_booleanify_other:
  "b \<notin> set as \<Longrightarrow> map_of (fold booleanify as ob) b = map_of ob b"
  by (induction as arbitrary: ob) (simp_all add: map_of_booleanify_other)

lemma map_of_networks_other:
  "b \<noteq> ''networks'' \<Longrightarrow> map_of (fst (decode_networks H st)) b = map_of (fst st) b"
  by (cases st) (simp split: option.splits)

lemma map_of_owner_other:
  "b \<noteq> ''owner_uuid'' \<Longrightarrow> b \<noteq> ''owner_uuids'' \<Longrightarrow>
   map_of (fst (decode_owner H st)) b = map_of (fst st) b"
  by (cases st) (simp split: option.splits)

lemma map_of_traits_other:
  "b \<noteq> ''traits'' \<Longrightarrow> map_of (fst (decode_traits H st)) b = map_of (fst st) b"
  by (cases st) (simp split: option.splits)

lemma map_of_min_platform_other:
  "b \<noteq> ''min_platform'' \<Longrightarrow> map_of (fst (decode_min_platform H st)) b = map_of (fst st) b"
  by (cases st) (simp split: option.splits)

declare numerify.simps [simp del] decode_networks.simps [simp del] decode_owner.simps [simp del]
  decode_traits.simps [simp del] decode_min_platform.simps [simp del]


lemma decode_unfold:
  "decode H ob =
     decode_min_platform H (decode_traits H (decode_owner H (decode_networks H
       (fold booleanify attrs2boolean
          (fst (fold (numerify H) attrs2numerify (fold delete_prop attrs2ignore ob, []))), []))))"
  by (simp add: decode_def Let_def split_beta snd_fold_numerify)

lemma distinct_attrs2numerify: "distinct attrs2numerify"
  by (simp add: attrs2numerify_def)


lemma map_of_coerced_other:
  "b \<notin> set attrs2ignore \<Longrightarrow> b \<notin> set attrs2numerify \<Longrightarrow> b \<notin> set attrs2boolean \<Longrightarrow>
   map_of (fold booleanify attrs2boolean
      (fst (fold (numerify H) attrs2numerify (fold delete_prop attrs2ignore ob, [])))) b = map_of ob b"
  by (simp add: map_of_fold_booleanify_other map_of_fold_numerify_other map_of_fold_delete)

lemma get_prop_coerced_other:
  "b \<notin> set attrs2ignore \<Longrightarrow> b \<notin> set attrs2numerify \<Longrightarrow> b \<notin> set attrs2boolean \<Longrightarrow>
   get_prop (fold booleanify attrs2boolean
      (fst (fold (numerify H) attrs2numerify (fold delete_prop attrs2ignore ob, [])))) b = get_prop ob b"
  by (simp add: get_prop_def map_of_coerced_other)

lemma numeric_not_other:
  "a \<in> set attrs2numerify \<Longrightarrow>
   a \<notin> set attrs2ignore \<and> a \<notin> set attrs2boolean \<and> a \<noteq> ''networks'' \<and> a \<noteq> ''owner_uuid''
   \<and> a \<noteq> ''owner_uuids'' \<and> a \<noteq> ''traits'' \<and> a \<noteq> ''min_platform''"
  unfolding attrs2numerify_def attrs2ignore_def attrs2boolean_def
  by (elim disjE | simp)+

lemma map_of_decode_numeric:
  assumes "a \<in> set attrs2numerify"
  shows "map_of (fst (decode H r)) a =
     (if truthy (get_prop r a) then Some (JNum (Number H (get_prop r a))) else map_of r a)"
proof -
  from numeric_not_other [OF assms]
  have n: "a \<notin> set attrs2ignore" "a \<notin> set attrs2boolean" "a \<noteq> ''networks''"
    "a \<noteq> ''owner_uuid''" "a \<noteq> ''owner_uuids''" "a \<noteq> ''traits''" "a \<noteq> ''min_platform''"
    by simp_all
  have "map_of (fst (decode H r)) a =
     map_of (fst (fold (numerify H) attrs2numerify (fold delete_prop attrs2ignore r, []))) a"
    using n by (simp add: decode_unfold map_of_min_platform_other map_of_traits_other
        map_of_owner_other map_of_networks_other map_of_fold_booleanify_other)
  also have "\<dots> = (if truthy (get_prop (fold delete_prop attrs2ignore r) a)
      then Some (JNum (Number H (get_prop (fold delete_prop attrs2ignore r) a)))
      else map_of (fold delete_prop attrs2ignore r) a)"
    by (rule map_of_fold_numerify [OF distinct_attrs2numerify assms])
  also have "\<dots> = (if truthy (get_prop r a) then Some (JNum (Number H (get_prop r a)))
      else map_of r a)"
    using n by (simp add: get_prop_def map_of_fold_delete)
  finally show ?thesis .
qed

lemma other_attrs:
  "''networks'' \<notin> set attrs2ignore" "''networks'' \<notin> set attrs2numerify" "''networks'' \<notin> set attrs2boolean"
  "''owner_uuid'' \<notin> set attrs2ignore" "''owner_uuid'' \<notin> set attrs2numerify" "''owner_uuid'' \<notin> set attrs2boolean"
  "''owner_uuids'' \<notin> set attrs2ignore" "''owner_uuids'' \<notin> set attrs2numerify" "''owner_uuids'' \<notin> set attrs2boolean"
  "''traits'' \<notin> set attrs2ignore" "''traits'' \<notin> set attrs2numerify" "''traits'' \<notin> set attrs2boolean"
  "''min_platform'' \<notin> set attrs2ignore" "''min_platform'' \<notin> set attrs2numerify" "''min_platform'' \<notin> set attrs2boolean"
  by (simp_all add: attrs2ignore_def attrs2numerify_def attrs2boolean_def)

lemma map_of_owner:
  "map_of (fst (decode_owner H (ob, lg))) =
     (if truthy (get_prop ob ''owner_uuid'')
      then ((map_of ob)(''owner_uuids'' \<mapsto>
              (if is_string (get_prop ob ''owner_uuid'')
               then (case JSON_parse H (get_prop ob ''owner_uuid'') of
                       Some v \<Rightarrow> v | None \<Rightarrow> JArr [get_prop ob ''owner_uuid''])
               else if \<not> isArray (get_prop ob ''owner_uuid'') then JArr []
               else get_prop ob ''owner_uuid'')))(''owner_uuid'' := None)
      else map_of ob)"
  by (simp add: decode_owner.simps split: option.splits)

lemma map_of_networks:
  "map_of (fst (decode_networks H (ob, lg))) =
     (if truthy (get_prop ob ''networks'')
      then (if is_string (get_prop ob ''networks'')
            then (map_of ob)(''networks'' \<mapsto>
                   (case JSON_parse H (get_prop ob ''networks'') of Some v \<Rightarrow> v | None \<Rightarrow> JArr []))
            else if \<not> isArray (get_prop ob ''networks'') then (map_of ob)(''networks'' \<mapsto> JArr [])
            else map_of ob)
      else map_of ob)"
  by (simp add: decode_networks.simps split: option.splits)

lemma snd_networks:
  "snd (decode_networks H (ob, lg)) =
     (if truthy (get_prop ob ''networks'') \<and>
         (if is_string (get_prop ob ''networks'')
          then JSON_parse H (get_prop ob ''networks'') = None
          else \<not> isArray (get_prop ob ''networks''))
      then lg @ [(Error, ''Error importing networks'')] else lg)"
  by (simp add: decode_networks.simps split: option.splits)

lemma log_kept_owner: "set (snd st) \<subseteq> set (snd (decode_owner H st))"
  by (cases st) (auto simp add: decode_owner.simps split: option.splits)

lemma log_kept_traits: "set (snd st) \<subseteq> set (snd (decode_traits H st))"
  by (cases st) (auto simp add: decode_traits.simps split: option.splits)

lemma log_kept_min_platform: "set (snd st) \<subseteq> set (snd (decode_min_platform H st))"
  by (cases st) (auto simp add: decode_min_platform.simps split: option.splits)

lemma log_kept_after_networks:
  "set (snd st) \<subseteq> set (snd (decode_min_platform H (decode_traits H (decode_owner H st))))"
  using log_kept_owner [of st H] log_kept_traits [of "decode_owner H st" H]
    log_kept_min_platform [of "decode_traits H (decode_owner H st)" H]
  by blast

lemma map_of_decode_owner_uuids:
  "map_of (fst (decode H r)) ''owner_uuids'' =
     (if truthy (get_prop r ''owner_uuid'')
      then Some (if is_string (get_prop r ''owner_uuid'')
                 then (case JSON_parse H (get_prop r ''owner_uuid'') of
                         Some v \<Rightarrow> v | None \<Rightarrow> JArr [get_prop r ''owner_uuid''])
                 else if \<not> isArray (get_prop r ''owner_uuid'') then JArr []
                 else get_prop r ''owner_uuid'')
      else map_of r ''owner_uuids'')"
proof -
  let ?c = "fold booleanify attrs2boolean
      (fst (fold (numerify H) attrs2numerify (fold delete_prop attrs2ignore r, [])))"
  let ?n = "decode_networks H (?c, [])"
  have a: "map_of (fst ?n) ''owner_uuid'' = map_of r ''owner_uuid''"
    by (simp add: map_of_networks_other map_of_coerced_other other_attrs)
  have b: "map_of (fst ?n) ''owner_uuids'' = map_of r ''owner_uuids''"
    by (simp add: map_of_networks_other map_of_coerced_other other_attrs)
  from a have g: "get_prop (fst ?n) ''owner_uuid'' = get_prop r ''owner_uuid''"
    by (simp add: get_prop_def)
  have "map_of (fst (decode H r)) ''owner_uuids'' = map_of (fst (decode_owner H ?n)) ''owner_uuids''"
    by (simp add: decode_unfold map_of_min_platform_other map_of_traits_other)
  also have "\<dots> = map_of (fst (decode_owner H (fst ?n, snd ?n))) ''owner_uuids''"
    by simp
  finally show ?thesis
    unfolding map_of_owner g using b by simp
qed

lemma map_of_decode_owner_uuid:
  "map_of (fst (decode H r)) ''owner_uuid'' =
     (if truthy (get_prop r ''owner_uuid'') then None else map_of r ''owner_uuid'')"
proof -
  let ?c = "fold booleanify attrs2boolean
      (fst (fold (numerify H) attrs2numerify (fold delete_prop attrs2ignore r, [])))"
  let ?n = "decode_networks H (?c, [])"
  have a: "map_of (fst ?n) ''owner_uuid'' = map_of r ''owner_uuid''"
    by (simp add: map_of_networks_other map_of_coerced_other other_attrs)
  from a have g: "get_prop (fst ?n) ''owner_uuid'' = get_prop r ''owner_uuid''"
    by (simp add: get_prop_def)
  have "map_of (fst (decode H r)) ''owner_uuid'' = map_of (fst (decode_owner H ?n)) ''owner_uuid''"
    by (simp add: decode_unfold map_of_min_platform_other map_of_traits_other)
  also have "\<dots> = map_of (fst (decode_owner H (fst ?n, snd ?n))) ''owner_uuid''"
    by simp
  finally show ?thesis
    unfolding map_of_owner g using a by simp
qed

lemma map_of_decode_networks:
  "map_of (fst (decode H r)) ''networks'' =
     (if truthy (get_prop r ''networks'')
      then (if is_string (get_prop r ''networks'')
            then Some (case JSON_parse H (get_prop r ''networks'') of Some v \<Rightarrow> v | None \<Rightarrow> JArr [])
            else if \<not> isArray (get_prop r ''networks'') then Some (JArr [])
            else map_of r ''networks'')
      else map_of r ''networks'')"
proof -
  let ?c = "fold booleanify attrs2boolean
      (fst (fold (numerify H) attrs2numerify (fold delete_prop attrs2ignore r, [])))"
  have a: "map_of ?c ''networks'' = map_of r ''networks''"
    by (simp add: map_of_coerced_other other_attrs)
  then have g: "get_prop ?c ''networks'' = get_prop r ''networks''"
    by (simp add: get_prop_def)
  have "map_of (fst (decode H r)) ''networks'' = map_of (fst (decode_networks H (?c, []))) ''networks''"
    by (simp add: decode_unfold map_of_min_platform_other map_of_traits_other map_of_owner_other)
  then show ?thesis
    unfolding map_of_networks g using a by simp
qed

lemma log_decode_networks:
  assumes "truthy (get_prop r ''networks'')"
    and "if is_string (get_prop r ''networks'')
         then JSON_parse H (get_prop r ''networks'') = None
         else \<not> isArray (get_prop r ''networks'')"
  shows "(Error, ''Error importing networks'') \<in> set (snd (decode H r))"
proof -
  let ?c = "fold booleanify attrs2boolean
      (fst (fold (numerify H) attrs2numerify (fold delete_prop attrs2ignore r, [])))"
  have a: "map_of ?c ''networks'' = map_of r ''networks''"
    by (simp add: map_of_coerced_other other_attrs)
  then have g: "get_prop ?c ''networks'' = get_prop r ''networks''"
    by (simp add: get_prop_def)
  have "(Error, ''Error importing networks'') \<in> set (snd (decode_networks H (?c, [])))"
    unfolding snd_networks g using assms by simp
  with log_kept_after_networks [of "decode_networks H (?c, [])" H]
  show ?thesis by (auto simp add: decode_unfold)
qed

subsection \<open>Numeric attributes\<close>

text \<open>
  C1 (as amended). For every record and every attribute of \<^verbatim>\<open>attrs2numerify\<close>: when the
  value is truthy (a non-empty string, in particular), the decoded record holds
  \<^verbatim>\<open>Number(value)\<close> under that attribute, also when that number is \<^verbatim>\<open>NaN\<close>; a falsy or
  absent attribute is left as it was. The attribute is never removed.
\<close>

theorem decode_numeric_stores_number:
  "a \<in> set attrs2numerify \<Longrightarrow>
   map_of (fst (decode H r)) a =
     (if truthy (get_prop r a) then Some (JNum (Number H (get_prop r a))) else map_of r a)"
  by (rule map_of_decode_numeric)

theorem decode_numeric_stores_number_witness:
  "''max_swap'' \<in> set attrs2numerify \<and>
   map_of (fst (decode node [(''max_swap'', JStr ''abc'')])) ''max_swap'' = Some (JNum NaN)"
proof -
  have h: "''max_swap'' \<in> set attrs2numerify" by (simp add: attrs2numerify_def)
  have n: "Number node (JStr ''abc'') = NaN" by code_simp
  from decode_numeric_stores_number [OF h, of node "[(''max_swap'', JStr ''abc'')]"] h n
  show ?thesis by (simp add: get_prop_def)
qed

text \<open>
  C1 as stated fails: \<^verbatim>\<open>max_swap\<close> is present, its value \<^verbatim>\<open>"abc"\<close> coerces to
  \<^verbatim>\<open>NaN\<close>, and the decoded record holds \<^verbatim>\<open>NaN\<close> under \<^verbatim>\<open>max_swap\<close> while nothing is
  logged (\<^verbatim>\<open>obj[a] === NaN\<close> is false for every value).
\<close>

theorem decode_numeric_nan_stored:
  "Number node (JStr ''abc'') = NaN \<and>
   decode node [(''max_swap'', JStr ''abc'')] = ([(''max_swap'', JNum NaN)], [])"
  by code_simp

subsection \<open>Owners\<close>

text \<open>
  C5 (as amended). Whether \<^verbatim>\<open>owner_uuids\<close> is already present plays no part: when
  \<^verbatim>\<open>owner_uuid\<close> is truthy the change runs and \<^verbatim>\<open>owner_uuids\<close> becomes what it
  computes from \<^verbatim>\<open>owner_uuid\<close> (the parsed value, the one-element list of the raw string,
  the list itself, or the empty list), replacing any value that was there; when
  \<^verbatim>\<open>owner_uuid\<close> is absent or falsy, \<^verbatim>\<open>owner_uuids\<close> is left as it was.
\<close>

theorem decode_owner_uuids_migration:
  "map_of (fst (decode H r)) ''owner_uuids'' =
     (if truthy (get_prop r ''owner_uuid'')
      then Some (if is_string (get_prop r ''owner_uuid'')
                 then (case JSON_parse H (get_prop r ''owner_uuid'') of
                         Some v \<Rightarrow> v | None \<Rightarrow> JArr [get_prop r ''owner_uuid''])
                 else if \<not> isArray (get_prop r ''owner_uuid'') then JArr []
                 else get_prop r ''owner_uuid'')
      else map_of r ''owner_uuids'')"
  by (rule map_of_decode_owner_uuids)

theorem decode_owner_uuids_migration_witness:
  "map_of (fst (decode node [(''owner_uuids'', JArr [JStr ''x'']), (''owner_uuid'', JStr '''')]))
     ''owner_uuids'' = Some (JArr [JStr ''x'']) \<and>
   map_of (fst (decode node [(''owner_uuids'', JArr [JStr ''x'']), (''owner_uuid'', JArr [JStr ''y''])]))
     ''owner_uuids'' = Some (JArr [JStr ''y''])"
  using decode_owner_uuids_migration
    [of node "[(''owner_uuids'', JArr [JStr ''x'']), (''owner_uuid'', JStr '''')]"]
    decode_owner_uuids_migration
    [of node "[(''owner_uuids'', JArr [JStr ''x'']), (''owner_uuid'', JArr [JStr ''y''])]"]
  by (simp add: get_prop_def)

text \<open>
  C5 as stated fails: a record with \<^verbatim>\<open>owner_uuids = ["x"]\<close> and \<^verbatim>\<open>owner_uuid = "abc"\<close>
  decodes to \<^verbatim>\<open>owner_uuids = ["abc"]\<close>.
\<close>

theorem decode_owner_uuids_replaced:
  "get_prop [(''owner_uuids'', JArr [JStr ''x'']), (''owner_uuid'', JStr ''abc'')] ''owner_uuids''
     = JArr [JStr ''x''] \<and>
   decode node [(''owner_uuids'', JArr [JStr ''x'']), (''owner_uuid'', JStr ''abc'')]
     = ([(''owner_uuids'', JArr [JStr ''abc''])], [])"
  by code_simp

text \<open>
  C7. With a runtime in which \<^verbatim>\<open>JSON.parse("abc")\<close> throws and
  \<^verbatim>\<open>JSON.parse('["a","b"]')\<close> is the list of \<^verbatim>\<open>"a"\<close> and \<^verbatim>\<open>"b"\<close>: a record whose
  \<^verbatim>\<open>owner_uuid\<close> is \<^verbatim>\<open>"abc"\<close> decodes to \<^verbatim>\<open>owner_uuids = ["abc"]\<close>, one whose
  \<^verbatim>\<open>owner_uuid\<close> is the text \<^verbatim>\<open>["a","b"]\<close> decodes to \<^verbatim>\<open>owner_uuids = ["a","b"]\<close>, and
  in both the decoded record has no \<^verbatim>\<open>owner_uuid\<close>.
\<close>

theorem decode_legacy_owner_uuid:
  assumes "JSON_parse H (JStr ''abc'') = None"
    and "JSON_parse H (JStr ''[\"a\",\"b\"]'') = Some (JArr [JStr ''a'', JStr ''b''])"
  shows "(get_prop r ''owner_uuid'' = JStr ''abc'' \<longrightarrow>
            get_prop (fst (decode H r)) ''owner_uuids'' = JArr [JStr ''abc''] \<and>
            \<not> has_prop (fst (decode H r)) ''owner_uuid'') \<and>
         (get_prop r ''owner_uuid'' = JStr ''[\"a\",\"b\"]'' \<longrightarrow>
            get_prop (fst (decode H r)) ''owner_uuids'' = JArr [JStr ''a'', JStr ''b''] \<and>
            \<not> has_prop (fst (decode H r)) ''owner_uuid'')"
  using assms
  by (simp add: get_prop_def [of "fst (decode H r)"] has_prop_def
      map_of_decode_owner_uuids map_of_decode_owner_uuid)

theorem decode_legacy_owner_uuid_witness:
  "JSON_parse node (JStr ''abc'') = None \<and>
   JSON_parse node (JStr ''[\"a\",\"b\"]'') = Some (JArr [JStr ''a'', JStr ''b'']) \<and>
   get_prop (fst (decode node [(''uuid'', JStr ''u1''), (''owner_uuid'', JStr ''abc'')])) ''owner_uuids''
     = JArr [JStr ''abc''] \<and>
   \<not> has_prop (fst (decode node [(''uuid'', JStr ''u1''), (''owner_uuid'', JStr ''abc'')])) ''owner_uuid'' \<and>
   get_prop (fst (decode node [(''uuid'', JStr ''u1''), (''owner_uuid'', JStr ''[\"a\",\"b\"]'')])) ''owner_uuids''
     = JArr [JStr ''a'', JStr ''b''] \<and>
   \<not> has_prop (fst (decode node [(''uuid'', JStr ''u1''), (''owner_uuid'', JStr ''[\"a\",\"b\"]'')])) ''owner_uuid''"
proof -
  have p1: "JSON_parse node (JStr ''abc'') = None" by code_simp
  have p2: "JSON_parse node (JStr ''[\"a\",\"b\"]'') = Some (JArr [JStr ''a'', JStr ''b''])"
    by code_simp
  from decode_legacy_owner_uuid [OF p1 p2, of "[(''uuid'', JStr ''u1''), (''owner_uuid'', JStr ''abc'')]"]
    decode_legacy_owner_uuid [OF p1 p2, of "[(''uuid'', JStr ''u1''), (''owner_uuid'', JStr ''[\"a\",\"b\"]'')]"]
    p1 p2
  show ?thesis by (simp add: get_prop_def [of "[_, _]"])
qed

subsection \<open>Networks\<close>

text \<open>
  C6 (as amended). An absent or falsy \<^verbatim>\<open>networks\<close> (the empty string included) is left
  as it was. A non-empty string is parsed: when the parse fails, \<^verbatim>\<open>networks\<close> becomes the
  empty list and an entry is logged at error level; when it gives a list, \<^verbatim>\<open>networks\<close>
  becomes that list. A list is left as it was. Any other truthy value becomes the empty list,
  with an entry logged at error level.
\<close>

theorem decode_networks_cases:
  "(\<not> truthy (get_prop r ''networks'') \<longrightarrow>
      map_of (fst (decode H r)) ''networks'' = map_of r ''networks'') \<and>
   (get_prop r ''networks'' = JStr s \<and> s \<noteq> [] \<and> JSON_parse H (JStr s) = None \<longrightarrow>
      get_prop (fst (decode H r)) ''networks'' = JArr [] \<and>
      (Error, ''Error importing networks'') \<in> set (snd (decode H r))) \<and>
   (get_prop r ''networks'' = JStr s \<and> s \<noteq> [] \<and> JSON_parse H (JStr s) = Some (JArr xs) \<longrightarrow>
      get_prop (fst (decode H r)) ''networks'' = JArr xs) \<and>
   (get_prop r ''networks'' = JArr ys \<longrightarrow>
      get_prop (fst (decode H r)) ''networks'' = JArr ys) \<and>
   (truthy (get_prop r ''networks'') \<and> \<not> is_string (get_prop r ''networks'') \<and>
    \<not> isArray (get_prop r ''networks'') \<longrightarrow>
      get_prop (fst (decode H r)) ''networks'' = JArr [] \<and>
      (Error, ''Error importing networks'') \<in> set (snd (decode H r)))"
proof (intro conjI impI)
  assume "\<not> truthy (get_prop r ''networks'')"
  then show "map_of (fst (decode H r)) ''networks'' = map_of r ''networks''"
    by (simp add: map_of_decode_networks)
next
  assume a: "get_prop r ''networks'' = JStr s \<and> s \<noteq> [] \<and> JSON_parse H (JStr s) = None"
  then show "get_prop (fst (decode H r)) ''networks'' = JArr []"
    by (simp add: get_prop_def [of "fst (decode H r)"] map_of_decode_networks)
  from a show "(Error, ''Error importing networks'') \<in> set (snd (decode H r))"
    by (intro log_decode_networks) simp_all
next
  assume "get_prop r ''networks'' = JStr s \<and> s \<noteq> [] \<and> JSON_parse H (JStr s) = Some (JArr xs)"
  then show "get_prop (fst (decode H r)) ''networks'' = JArr xs"
    by (simp add: get_prop_def [of "fst (decode H r)"] map_of_decode_networks)
next
  assume a: "get_prop r ''networks'' = JArr ys"
  then have "map_of r ''networks'' = Some (JArr ys)"
    by (simp add: get_prop_def split: option.splits)
  with a show "get_prop (fst (decode H r)) ''networks'' = JArr ys"
    by (simp add: get_prop_def [of "fst (decode H r)"] map_of_decode_networks)
next
  assume a: "truthy (get_prop r ''networks'') \<and> \<not> is_string (get_prop r ''networks'') \<and>
    \<not> isArray (get_prop r ''networks'')"
  then show "get_prop (fst (decode H r)) ''networks'' = JArr []"
    by (simp add: get_prop_def [of "fst (decode H r)"] map_of_decode_networks)
  from a show "(Error, ''Error importing networks'') \<in> set (snd (decode H r))"
    by (intro log_decode_networks) simp_all
qed

theorem decode_networks_cases_witness:
  "map_of (fst (decode node [(''networks'', JStr '''')])) ''networks'' = Some (JStr '''') \<and>
   get_prop (fst (decode node [(''networks'', JStr ''n1,n2'')])) ''networks'' = JArr [] \<and>
   (Error, ''Error importing networks'') \<in> set (snd (decode node [(''networks'', JStr ''n1,n2'')])) \<and>
   get_prop (fst (decode node [(''networks'', JStr ''[\"n1\"]'')])) ''networks'' = JArr [JStr ''n1''] \<and>
   get_prop (fst (decode node [(''networks'', JArr [JStr ''n1''])])) ''networks'' = JArr [JStr ''n1''] \<and>
   get_prop (fst (decode node [(''networks'', JBool True)])) ''networks'' = JArr [] \<and>
   (Error, ''Error importing networks'') \<in> set (snd (decode node [(''networks'', JBool True)]))"
proof -
  have p1: "JSON_parse node (JStr ''n1,n2'') = None" by code_simp
  have p2: "JSON_parse node (JStr ''[\"n1\"]'') = Some (JArr [JStr ''n1''])" by code_simp
  from decode_networks_cases [where r = "[(''networks'', JStr '''')]" and s = "[]" and H = node and xs = "[]" and ys = "[]"]
    decode_networks_cases [where r = "[(''networks'', JStr ''n1,n2'')]" and s = "''n1,n2''" and H = node and xs = "[]" and ys = "[]"]
    decode_networks_cases [where r = "[(''networks'', JStr ''[\"n1\"]'')]" and s = "''[\"n1\"]''" and H = node and xs = "[JStr ''n1'']" and ys = "[]"]
    decode_networks_cases [where r = "[(''networks'', JArr [JStr ''n1''])]" and s = "[]" and H = node and xs = "[]" and ys = "[JStr ''n1'']"]
    decode_networks_cases [where r = "[(''networks'', JBool True)]" and s = "[]" and H = node and xs = "[]" and ys = "[]"]
    p1 p2
  show ?thesis by (simp add: get_prop_def [of "[_]"])
qed

text \<open>
  C6 as stated fails: the string \<^verbatim>\<open>"true"\<close> parses to a boolean, which is stored as it
  is, and the empty string is not parsed at all; neither decoded \<^verbatim>\<open>networks\<close> is a list,
  and nothing is logged.
\<close>

theorem decode_networks_not_list:
  "decode node [(''networks'', JStr ''true'')] = ([(''networks'', JBool True)], []) \<and>
   decode node [(''networks'', JStr '''')] = ([(''networks'', JStr '''')], [])"
  by code_simp

subsection \<open>Decoding twice\<close>

lemma strict_eq_undefined [simp]: "strict_eq v JUndefined = (v = JUndefined)"
  by (cases v) simp_all

lemma delete_prop_absent: "map_of ob a = None \<Longrightarrow> delete_prop a ob = ob"
  by (simp add: delete_prop_def map_of_eq_None_iff)

lemma set_prop_same: "map_of ob a = Some v \<Longrightarrow> set_prop a v ob = ob"
  by (simp add: set_prop_def update_triv)

lemma fold_fixed: "(\<And>a. a \<in> set as \<Longrightarrow> f a x = x) \<Longrightarrow> fold f as x = x"
  by (induction as) simp_all

lemma numerify_fixed:
  assumes "\<forall>n. Number H (JNum n) = n"
    and "\<not> truthy (get_prop ob a) \<or> (\<exists>n. map_of ob a = Some (JNum n))"
  shows "numerify H a (ob, lg) = (ob, lg)"
proof (cases "truthy (get_prop ob a)")
  case True
  with assms(2) obtain n where n: "map_of ob a = Some (JNum n)" by auto
  then have "get_prop ob a = JNum n" by (simp add: get_prop_def)
  with n assms(1) show ?thesis by (simp add: numerify_eq set_prop_same)
next
  case False
  then show ?thesis by (simp add: numerify_eq)
qed

lemma booleanify_fixed:
  assumes "get_prop ob a = JUndefined \<or> (\<exists>b. map_of ob a = Some (JBool b))"
  shows "booleanify a ob = ob"
proof (cases "get_prop ob a = JUndefined")
  case True
  then show ?thesis by (simp add: booleanify_def)
next
  case False
  with assms obtain b where b: "map_of ob a = Some (JBool b)" by auto
  then have "get_prop ob a = JBool b" by (simp add: get_prop_def)
  with b show ?thesis by (simp add: booleanify_def set_prop_same)
qed

lemma networks_fixed:
  "\<not> truthy (get_prop ob ''networks'') \<or> isArray (get_prop ob ''networks'') \<Longrightarrow>
   decode_networks H (ob, lg) = (ob, lg)"
  by (cases "get_prop ob ''networks''") (auto simp add: decode_networks.simps)

lemma owner_fixed:
  "\<not> truthy (get_prop ob ''owner_uuid'') \<Longrightarrow> decode_owner H (ob, lg) = (ob, lg)"
  by (simp add: decode_owner.simps)

lemma traits_fixed:
  "\<not> truthy (get_prop ob ''traits'') \<Longrightarrow> decode_traits H (ob, lg) = (ob, lg)"
  by (simp add: decode_traits.simps)

lemma min_platform_fixed:
  "\<not> truthy (get_prop ob ''min_platform'') \<Longrightarrow> decode_min_platform H (ob, lg) = (ob, lg)"
  by (simp add: decode_min_platform.simps)

lemma ignored_not_other:
  "a \<in> set attrs2ignore \<Longrightarrow>
   a \<notin> set attrs2numerify \<and> a \<notin> set attrs2boolean \<and> a \<noteq> ''networks'' \<and> a \<noteq> ''owner_uuid''
   \<and> a \<noteq> ''owner_uuids'' \<and> a \<noteq> ''traits'' \<and> a \<noteq> ''min_platform''"
  unfolding attrs2numerify_def attrs2ignore_def attrs2boolean_def
  by (elim disjE | simp)+

lemma boolean_not_other:
  "a \<in> set attrs2boolean \<Longrightarrow>
   a \<notin> set attrs2numerify \<and> a \<notin> set attrs2ignore \<and> a \<noteq> ''networks'' \<and> a \<noteq> ''owner_uuid''
   \<and> a \<noteq> ''owner_uuids'' \<and> a \<noteq> ''traits'' \<and> a \<noteq> ''min_platform''"
  unfolding attrs2numerify_def attrs2ignore_def attrs2boolean_def
  by (elim disjE | simp)+

lemma map_of_decode_ignored:
  assumes "a \<in> set attrs2ignore"
  shows "map_of (fst (decode H r)) a = None"
proof -
  from ignored_not_other [OF assms]
  have n: "a \<notin> set attrs2numerify" "a \<notin> set attrs2boolean" "a \<noteq> ''networks''"
    "a \<noteq> ''owner_uuid''" "a \<noteq> ''owner_uuids''" "a \<noteq> ''traits''" "a \<noteq> ''min_platform''"
    by simp_all
  then show ?thesis
    using assms
    by (simp add: decode_unfold map_of_min_platform_other map_of_traits_other
        map_of_owner_other map_of_networks_other map_of_fold_booleanify_other
        map_of_fold_numerify_other map_of_fold_delete)
qed

lemma map_of_fold_booleanify:
  "distinct as \<Longrightarrow> a \<in> set as \<Longrightarrow>
   map_of (fold booleanify as ob) a =
     (if get_prop ob a = JUndefined then map_of ob a
      else Some (JBool (strict_eq (get_prop ob a) (JStr ''true'') \<or> strict_eq (get_prop ob a) (JBool True))))"
proof (induction as arbitrary: ob)
  case Nil
  then show ?case by simp
next
  case (Cons x xs)
  show ?case
  proof (cases "x = a")
    case True
    with Cons.prems have "a \<notin> set xs" by simp
    with True show ?thesis
      by (simp add: map_of_fold_booleanify_other) (simp add: booleanify_def)
  next
    case False
    with Cons.prems have "distinct xs" "a \<in> set xs" by simp_all
    from Cons.IH [OF this] False show ?thesis
      by (simp add: get_prop_def map_of_booleanify_other)
  qed
qed

lemma map_of_decode_boolean:
  assumes "a \<in> set attrs2boolean"
  shows "map_of (fst (decode H r)) a =
     (if get_prop r a = JUndefined then map_of r a
      else Some (JBool (strict_eq (get_prop r a) (JStr ''true'') \<or> strict_eq (get_prop r a) (JBool True))))"
proof -
  from boolean_not_other [OF assms]
  have n: "a \<notin> set attrs2numerify" "a \<notin> set attrs2ignore" "a \<noteq> ''networks''"
    "a \<noteq> ''owner_uuid''" "a \<noteq> ''owner_uuids''" "a \<noteq> ''traits''" "a \<noteq> ''min_platform''"
    by simp_all
  let ?m = "fst (fold (numerify H) attrs2numerify (fold delete_prop attrs2ignore r, []))"
  have m: "map_of ?m a = map_of r a"
    using n by (simp add: map_of_fold_numerify_other map_of_fold_delete)
  then have g: "get_prop ?m a = get_prop r a" by (simp add: get_prop_def)
  have d: "distinct attrs2boolean" by (simp add: attrs2boolean_def)
  have "map_of (fst (decode H r)) a = map_of (fold booleanify attrs2boolean ?m) a"
    using n by (simp add: decode_unfold map_of_min_platform_other map_of_traits_other
        map_of_owner_other map_of_networks_other)
  also note map_of_fold_booleanify [OF d assms, of ?m]
  finally show ?thesis by (simp add: g m)
qed

lemma decode_again:
  assumes N: "\<forall>n. Number H (JNum n) = n"
    and nw: "\<not> truthy (get_prop (fst (decode H r)) ''networks'')
             \<or> isArray (get_prop (fst (decode H r)) ''networks'')"
    and tr: "\<not> truthy (get_prop (fst (decode H r)) ''traits'')"
    and mp: "\<not> truthy (get_prop (fst (decode H r)) ''min_platform'')"
  shows "decode H (fst (decode H r)) = (fst (decode H r), [])"
proof -
  let ?r = "fst (decode H r)"
  have 1: "fold delete_prop attrs2ignore ?r = ?r"
    by (rule fold_fixed) (simp add: delete_prop_absent map_of_decode_ignored)
  have 2: "fold (numerify H) attrs2numerify (?r, []) = (?r, [])"
  proof (rule fold_fixed)
    fix a assume a: "a \<in> set attrs2numerify"
    have "\<not> truthy (get_prop ?r a) \<or> (\<exists>n. map_of ?r a = Some (JNum n))"
    proof (cases "truthy (get_prop r a)")
      case True
      then show ?thesis by (simp add: map_of_decode_numeric [OF a])
    next
      case False
      then have "get_prop ?r a = get_prop r a"
        by (simp add: get_prop_def map_of_decode_numeric [OF a])
      with False show ?thesis by simp
    qed
    with N show "numerify H a (?r, []) = (?r, [])" by (rule numerify_fixed)
  qed
  have 3: "fold booleanify attrs2boolean ?r = ?r"
  proof (rule fold_fixed)
    fix a assume a: "a \<in> set attrs2boolean"
    have "get_prop ?r a = JUndefined \<or> (\<exists>b. map_of ?r a = Some (JBool b))"
    proof (cases "get_prop r a = JUndefined")
      case True
      then have "get_prop ?r a = get_prop r a"
        by (simp add: get_prop_def map_of_decode_boolean [OF a])
      with True show ?thesis by simp
    next
      case False
      then show ?thesis by (simp add: map_of_decode_boolean [OF a])
    qed
    then show "booleanify a ?r = ?r" by (rule booleanify_fixed)
  qed
  have ow: "\<not> truthy (get_prop ?r ''owner_uuid'')"
    by (simp add: get_prop_def [of ?r] map_of_decode_owner_uuid) (simp add: get_prop_def)
  show ?thesis
    by (simp add: decode_def [of H ?r] 1 2 3 networks_fixed [OF nw] owner_fixed [OF ow]
        traits_fixed [OF tr] min_platform_fixed [OF mp])
qed

text \<open>
  C2 (as amended). \<^verbatim>\<open>decode\<close> is a function of the record: equal records decode to equal
  records. It changes the record it is given, so a second call sees the output of the
  first; that second call changes nothing and logs nothing whenever, in the output of the
  first, \<^verbatim>\<open>networks\<close> is absent, falsy or a list and \<^verbatim>\<open>traits\<close> and \<^verbatim>\<open>min_platform\<close>
  are absent or falsy (\<^verbatim>\<open>Number\<close> of a number being that number).
\<close>

theorem decode_twice:
  assumes "\<forall>n. Number H (JNum n) = n"
    and "\<not> truthy (get_prop (fst (decode H r)) ''networks'')
         \<or> isArray (get_prop (fst (decode H r)) ''networks'')"
    and "\<not> truthy (get_prop (fst (decode H r)) ''traits'')"
    and "\<not> truthy (get_prop (fst (decode H r)) ''min_platform'')"
  shows "decode H (fst (decode H r)) = (fst (decode H r), [])"
  using assms by (rule decode_again)

theorem decode_twice_witness:
  "fst (decode node [(''dn'', JStr ''uuid=u1''), (''uuid'', JStr ''u1''), (''max_swap'', JStr ''256''),
        (''active'', JStr ''true''), (''networks'', JStr ''[\"n1\"]''), (''owner_uuid'', JStr ''abc'')])
     = [(''uuid'', JStr ''u1''), (''max_swap'', JNum (Fin 256)), (''active'', JBool True),
        (''networks'', JArr [JStr ''n1'']), (''owner_uuids'', JArr [JStr ''abc''])] \<and>
   decode node [(''uuid'', JStr ''u1''), (''max_swap'', JNum (Fin 256)), (''active'', JBool True),
        (''networks'', JArr [JStr ''n1'']), (''owner_uuids'', JArr [JStr ''abc''])]
     = ([(''uuid'', JStr ''u1''), (''max_swap'', JNum (Fin 256)), (''active'', JBool True),
        (''networks'', JArr [JStr ''n1'']), (''owner_uuids'', JArr [JStr ''abc''])], [])"
proof -
  let ?r = "[(''dn'', JStr ''uuid=u1''), (''uuid'', JStr ''u1''), (''max_swap'', JStr ''256''),
        (''active'', JStr ''true''), (''networks'', JStr ''[\"n1\"]''), (''owner_uuid'', JStr ''abc'')]"
  have d: "fst (decode node ?r)
     = [(''uuid'', JStr ''u1''), (''max_swap'', JNum (Fin 256)), (''active'', JBool True),
        (''networks'', JArr [JStr ''n1'']), (''owner_uuids'', JArr [JStr ''abc''])]"
    by code_simp
  have n: "\<forall>n. Number node (JNum n) = n" by (simp add: node_def)
  have a: "\<not> truthy (get_prop (fst (decode node ?r)) ''networks'')
         \<or> isArray (get_prop (fst (decode node ?r)) ''networks'')"
    unfolding d by (simp add: get_prop_def)
  have b: "\<not> truthy (get_prop (fst (decode node ?r)) ''traits'')"
    unfolding d by (simp add: get_prop_def)
  have c: "\<not> truthy (get_prop (fst (decode node ?r)) ''min_platform'')"
    unfolding d by (simp add: get_prop_def)
  from decode_twice [OF n a b c] d show ?thesis by simp
qed

text \<open>
  C2 as stated fails: the first call parses \<^verbatim>\<open>traits\<close> into an object; the second call
  hands that object to \<^verbatim>\<open>JSON.parse\<close>, which throws on its string
  \<^verbatim>\<open>[object Object]\<close>, and \<^verbatim>\<open>traits\<close> becomes the empty object.
\<close>

theorem decode_twice_differs:
  "decode node [(''traits'', JStr ''{\"a\":\"b\"}'')] = ([(''traits'', JObj [(''a'', JStr ''b'')])], []) \<and>
   decode node [(''traits'', JObj [(''a'', JStr ''b'')])]
     = ([(''traits'', JObj [])], [(Error, ''Error importing traits'')])"
  by code_simp

section \<open>Properties of the loaders\<close>

declare ldif_line.simps [simp del]

lemma split_lines_not_Nil [simp]: "split_lines s \<noteq> []"
  by (induction s) (simp_all split: list.splits)

lemma split_lines_append:
  "split_lines (a @ CHR 0x0A # b) = split_lines a @ split_lines b"
proof (induction a)
  case Nil
  then show ?case by simp
next
  case (Cons c a)
  obtain l ls where "split_lines a = l # ls"
    using split_lines_not_Nil [of a] by (cases "split_lines a") auto
  with Cons show ?case by simp
qed

lemma split_lines_single: "CHR 0x0A \<notin> set l \<Longrightarrow> split_lines l = [l]"
  by (induction l) auto

lemma json_row_bad: "JSON_parse H (JStr l) = None \<Longrightarrow> json_row H l = (JNull, [(Error, ''Error parsing JSON'')])"
  by (simp add: json_row_def)

lemma json_row_object:
  "JSON_parse H (JStr l) = Some (JObj ob) \<Longrightarrow> json_row H l = (JObj (fst (decode H ob)), snd (decode H ob))"
  by (simp add: json_row_def split: prod.splits)

lemma filter_rows:
  "filter truthy (map (\<lambda>l. fst (json_row H l)) ls) =
   filter truthy (map (\<lambda>l. fst (json_row H l)) (filter (\<lambda>l. JSON_parse H (JStr l) \<noteq> None) ls))"
  by (induction ls) (auto simp add: json_row_bad)

lemma ldif_line_text:
  "line \<noteq> [] \<Longrightarrow> fst (ldif_line H line st) = fst st \<and> snd (snd (ldif_line H line st)) = snd (snd st)"
  by (cases st) (simp add: ldif_line.simps Let_def split: option.splits prod.splits jsval.splits)

lemma fold_ldif_line_text:
  "[] \<notin> set ls \<Longrightarrow>
   fst (fold (ldif_line H) ls st) = fst st \<and> snd (snd (fold (ldif_line H) ls st)) = snd (snd st)"
proof (induction ls arbitrary: st)
  case Nil
  then show ?case by simp
next
  case (Cons l ls)
  then have "l \<noteq> []" "[] \<notin> set ls" by auto
  with Cons.IH [of "ldif_line H l st"] ldif_line_text [of l H st]
  show ?case by simp
qed





subsection \<open>JSON lines\<close>

text \<open>
  C8. The load never aborts on a line: its packages are computed from the lines that parse,
  in order, so a line on which \<^verbatim>\<open>JSON.parse\<close> throws adds nothing (and is logged), and
  so does a blank line, on which it throws too. In particular a text of one line that parses
  to an object and one line that does not parse, in either order, gives exactly the one
  decoded object, and a line followed by blank lines gives one as well.
\<close>

theorem loadJsonPackages_lines:
  assumes "CHR 0x0A \<notin> set good" and "CHR 0x0A \<notin> set bad"
    and "JSON_parse H (JStr good) = Some (JObj ob)" and "JSON_parse H (JStr bad) = None"
    and "JSON_parse H (JStr []) = None"
  shows "(\<exists>lg. loadJsonPackages H (Inr jsonRows) =
            Inr (filter truthy (map (\<lambda>l. fst (json_row H l))
                   (filter (\<lambda>l. JSON_parse H (JStr l) \<noteq> None) (split_lines jsonRows))), lg)) \<and>
         (\<exists>lg. loadJsonPackages H (Inr (good @ [CHR 0x0A] @ bad)) = Inr ([JObj (fst (decode H ob))], lg)
               \<and> (Error, ''Error parsing JSON'') \<in> set lg) \<and>
         (\<exists>lg. loadJsonPackages H (Inr (bad @ [CHR 0x0A] @ good)) = Inr ([JObj (fst (decode H ob))], lg)
               \<and> (Error, ''Error parsing JSON'') \<in> set lg) \<and>
         (\<exists>lg. loadJsonPackages H (Inr (good @ [CHR 0x0A, CHR 0x0A])) = Inr ([JObj (fst (decode H ob))], lg))"
proof (intro conjI)
  show "\<exists>lg. loadJsonPackages H (Inr jsonRows) =
            Inr (filter truthy (map (\<lambda>l. fst (json_row H l))
                   (filter (\<lambda>l. JSON_parse H (JStr l) \<noteq> None) (split_lines jsonRows))), lg)"
    using filter_rows [of H "split_lines jsonRows"]
    by (simp add: loadJsonPackages_def Let_def comp_def)
  have g: "split_lines good = [good]" and b: "split_lines bad = [bad]"
    using assms(1,2) by (simp_all add: split_lines_single)
  show "\<exists>lg. loadJsonPackages H (Inr (good @ [CHR 0x0A] @ bad)) = Inr ([JObj (fst (decode H ob))], lg)
               \<and> (Error, ''Error parsing JSON'') \<in> set lg"
    using assms(3,4) g b
    by (simp add: loadJsonPackages_def Let_def split_lines_append json_row_bad json_row_object)
  show "\<exists>lg. loadJsonPackages H (Inr (bad @ [CHR 0x0A] @ good)) = Inr ([JObj (fst (decode H ob))], lg)
               \<and> (Error, ''Error parsing JSON'') \<in> set lg"
    using assms(3,4) g b
    by (simp add: loadJsonPackages_def Let_def split_lines_append json_row_bad json_row_object)
  have "split_lines (good @ [CHR 0x0A, CHR 0x0A]) = [good, [], []]"
    using split_lines_append [of good "[CHR 0x0A]"] g by simp
  then show "\<exists>lg. loadJsonPackages H (Inr (good @ [CHR 0x0A, CHR 0x0A])) = Inr ([JObj (fst (decode H ob))], lg)"
    using assms(3,5)
    by (simp add: loadJsonPackages_def Let_def json_row_bad json_row_object)
qed

theorem loadJsonPackages_lines_witness:
  "loadJsonPackages node (Inr ''{\"uuid\":\"u1\"}\<newline>{\"uuid\":'') =
     Inr ([JObj [(''uuid'', JStr ''u1'')]], [(Error, ''Error parsing JSON'')])"
proof -
  have a: "CHR 0x0A \<notin> set ''{\"uuid\":\"u1\"}''" "CHR 0x0A \<notin> set ''{\"uuid\":''" by simp_all
  have p: "JSON_parse node (JStr ''{\"uuid\":\"u1\"}'') = Some (JObj [(''uuid'', JStr ''u1'')])"
    "JSON_parse node (JStr ''{\"uuid\":'') = None" "JSON_parse node (JStr []) = None"
    by code_simp+
  have d: "decode node [(''uuid'', JStr ''u1'')] = ([(''uuid'', JStr ''u1'')], [])" by code_simp
  have e: "loadJsonPackages node (Inr ''{\"uuid\":\"u1\"}\<newline>{\"uuid\":'') =
     Inr ([JObj [(''uuid'', JStr ''u1'')]], [(Error, ''Error parsing JSON'')])" by code_simp
  from loadJsonPackages_lines [OF a p(1) p(2) p(3), of "[]"] d e
  show ?thesis by simp
qed

subsection \<open>LDIF\<close>




text \<open>
  C10. Packages are pushed on blank lines only. A text in which no line is blank loads as no
  package at all, and appended after a newline to any text it adds nothing: the object
  assembled from a last block that no blank line follows is dropped, without a log entry.
\<close>

theorem loadLdifPackages_drops_open_block:
  assumes "[] \<notin> set (split_lines b)"
  shows "loadLdifPackages H (Inr b) = Inr ([], []) \<and>
         loadLdifPackages H (Inr (a @ [CHR 0x0A] @ b)) = loadLdifPackages H (Inr a)"
proof
  from fold_ldif_line_text [OF assms, of H "([], [], [])"]
  show "loadLdifPackages H (Inr b) = Inr ([], [])"
    by (simp add: loadLdifPackages_def ldif_lines_def split_beta)
  from fold_ldif_line_text [OF assms, of H "fold (ldif_line H) (split_lines a) ([], [], [])"]
  show "loadLdifPackages H (Inr (a @ [CHR 0x0A] @ b)) = loadLdifPackages H (Inr a)"
    by (simp add: loadLdifPackages_def ldif_lines_def split_lines_append split_beta)
qed

theorem loadLdifPackages_drops_open_block_witness:
  "[] \<notin> set (split_lines ''uuid: u2\<newline>name: two'') \<and>
   loadLdifPackages node (Inr ''uuid: u2\<newline>name: two'') = Inr ([], []) \<and>
   loadLdifPackages node (Inr ''uuid: u1\<newline>\<newline>uuid: u2\<newline>name: two'')
     = Inr ([JObj [(''uuid'', JStr ''u1'')]], []) \<and>
   loadLdifPackages node (Inr ''uuid: u2\<newline>name: two\<newline>'')
     = Inr ([JObj [(''uuid'', JStr ''u2''), (''name'', JStr ''two'')]], [])"
proof -
  have h: "[] \<notin> set (split_lines ''uuid: u2\<newline>name: two'')" by simp
  have a: "loadLdifPackages node (Inr ''uuid: u1\<newline>'') = Inr ([JObj [(''uuid'', JStr ''u1'')]], [])"
    by code_simp
  have c: "loadLdifPackages node (Inr ''uuid: u2\<newline>name: two\<newline>'')
     = Inr ([JObj [(''uuid'', JStr ''u2''), (''name'', JStr ''two'')]], [])"
    by code_simp
  from loadLdifPackages_drops_open_block [OF h, of node "''uuid: u1\<newline>''"] h a c
  show ?thesis by simp
qed

section \<open>Properties of the pipeline\<close>

declare savePkg.simps [simp del]

lemma strict_eq_string [simp]: "strict_eq v (JStr s) = (v = JStr s)"
  by (cases v) auto

lemma fold_savePkg_create_only:
  assumes "\<not> overwrite cfg" and "\<not> dryrun cfg"
  shows "fold (savePkg cfg B) pkgs (st, n, lg) =
     (snd (create_only B pkgs st),
      n + count_list (fst (create_only B pkgs st)) Imported,
      lg @ map logged (fst (create_only B pkgs st)))"
proof (induction pkgs arbitrary: st n lg)
  case Nil
  then show ?case by simp
next
  case (Cons pkg pkgs)
  show ?case
  proof (cases "validate B pkg")
    case (Some errs)
    then show ?thesis
      by (simp add: savePkg.simps Cons.IH split_beta)
  next
    case None
    obtain err st1 where c: "createPkg B st (member pkg ''uuid'') pkg = (err, st1)"
      by (cases "createPkg B st (member pkg ''uuid'') pkg")
    with None assms show ?thesis
      by (simp add: savePkg.simps Cons.IH split_beta)
  qed
qed

lemma create_only_store:
  "snd (create_only B pkgs st) =
     fold (\<lambda>pkg s. snd (createPkg B s (member pkg ''uuid'') pkg))
       (filter (\<lambda>pkg. validate B pkg = None) pkgs) st"
  by (induction pkgs arbitrary: st) (simp_all add: split_beta split: option.splits)

text \<open>
  C4 (as amended). In a run that is not a dry run, with \<^verbatim>\<open>overwrite\<close> not set and the
  backend initialised, \<^verbatim>\<open>savePapiPackages\<close> writes every package that passes validation,
  and no other, through \<^verbatim>\<open>createPkg\<close> under the key \<^verbatim>\<open>pkg.uuid\<close>, in the order of the
  input: the store at the end is the one these writes leave, whatever \<^verbatim>\<open>updatePkg\<close> would
  do. Each package has the outcome of the specification, and a package for which the store
  answers \<^verbatim>\<open>'ObjectAlreadyExistsError'\<close> is logged once, as \<^verbatim>\<open>Package already exists\<close> at
  warning level and not at error level, and is not counted as imported.
\<close>

theorem savePapiPackages_create_only:
  assumes "\<not> overwrite cfg" and "\<not> dryrun cfg" and "\<not> truthy (init_err B)"
  shows "savePapiPackages packages cfg B st =
           Inr (fold (\<lambda>pkg s. snd (createPkg B s (member pkg ''uuid'') pkg))
                  (filter (\<lambda>pkg. validate B pkg = None) packages) st,
                count_list (fst (create_only B packages st)) Imported,
                map logged (fst (create_only B packages st))
                  @ [(Info, ''%d packages imported to PAPI'')])"
  using assms
  by (simp add: savePapiPackages_def fold_savePkg_create_only create_only_store)

theorem savePapiPackages_create_only_witness:
  "savePapiPackages
       [JObj [(''uuid'', JStr ''u1'')], JObj [(''uuid'', JStr ''u1'')], JObj [(''uuid'', JStr ''u2'')]]
       \<lparr>dryrun = False, overwrite = False\<rparr> memory_backend [JStr ''u0'']
     = Inr ([JStr ''u0'', JStr ''u1'', JStr ''u2''], 2,
            [(Info, ''Package imported''), (Warn, ''Package already exists''),
             (Info, ''Package imported''), (Info, ''%d packages imported to PAPI'')])"
proof -
  let ?ps = "[JObj [(''uuid'', JStr ''u1'')], JObj [(''uuid'', JStr ''u1'')], JObj [(''uuid'', JStr ''u2'')]]"
  have a: "\<not> overwrite \<lparr>dryrun = False, overwrite = False\<rparr>"
    and b: "\<not> dryrun \<lparr>dryrun = False, overwrite = False\<rparr>"
    and c: "\<not> truthy (init_err memory_backend)"
    by (simp_all add: memory_backend_def)
  have d: "create_only memory_backend ?ps [JStr ''u0'']
      = ([Imported, SkippedDuplicate, Imported], [JStr ''u0'', JStr ''u1'', JStr ''u2''])"
    by code_simp
  have e: "fold (\<lambda>pkg s. snd (createPkg memory_backend s (member pkg ''uuid'') pkg))
       (filter (\<lambda>pkg. validate memory_backend pkg = None) ?ps) [JStr ''u0'']
      = [JStr ''u0'', JStr ''u1'', JStr ''u2'']"
    by code_simp
  from savePapiPackages_create_only [OF a b c, of ?ps "[JStr ''u0'']"] d e
  show ?thesis by simp
qed

text \<open>
  C4 as stated fails: in a dry run with \<^verbatim>\<open>overwrite\<close> not set, the valid package is logged
  as imported and the store, to which \<^verbatim>\<open>createPkg\<close> would have added the key, is left as
  it was.
\<close>

theorem savePapiPackages_dry_run_writes_nothing:
  "validate memory_backend (JObj [(''uuid'', JStr ''u1'')]) = None \<and>
   createPkg memory_backend [] (JStr ''u1'') (JObj [(''uuid'', JStr ''u1'')]) = (JUndefined, [JStr ''u1'']) \<and>
   savePapiPackages [JObj [(''uuid'', JStr ''u1'')]] \<lparr>dryrun = True, overwrite = False\<rparr>
       memory_backend []
     = Inr ([], 0, [(Info, ''Package imported''), (Info, ''%d packages imported to PAPI'')])"
  by code_simp

text \<open>
  C3 (as amended). Once the options are parsed, \<^verbatim>\<open>main\<close> exits with status 1 exactly when
  the loader reports an error or \<^verbatim>\<open>backend.init\<close> fails, and with status 0 otherwise
  (also after \<^verbatim>\<open>usage(0)\<close>): what happens to the single packages, a store error
  included, does not change the exit status.
\<close>

theorem main_exit_status:
  "main H W B st os =
     (if opt_help os \<or> \<not> (given (url os) \<or> given (ldif os) \<or> given (json os)) then 0
      else if isl (load H W os) \<or> truthy (init_err B) then 1 else 0)"
  by (simp add: main_def savePapiPackages_def split: sum.splits prod.splits)

theorem main_exit_status_witness:
  "main node sample_world memory_backend [] sample_opts = 0 \<and>
   main node sample_world memory_backend [] (sample_opts\<lparr>json := Some ''missing.json''\<rparr>) = 1"
  using main_exit_status [of node sample_world memory_backend "[]" sample_opts]
    main_exit_status [of node sample_world memory_backend "[]" "sample_opts\<lparr>json := Some ''missing.json''\<rparr>"]
  by (simp add: sample_opts_def sample_world_def memory_backend_def load_def loadJsonPackages_def)

text \<open>
  C3 as stated fails: the one package of the sample file is valid, the store rejects it with
  an error that is not \<^verbatim>\<open>'ObjectAlreadyExistsError'\<close>, the failure is logged at error
  level, nothing is imported, and the exit status is 0.
\<close>

theorem main_exit_zero_with_failed_record:
  "load node sample_world sample_opts = Inr ([JObj [(''uuid'', JStr ''u1'')]], []) \<and>
   savePapiPackages [JObj [(''uuid'', JStr ''u1'')]] \<lparr>dryrun = False, overwrite = False\<rparr>
       broken_backend []
     = Inr ([], 0, [(Error, ''Error importing package''), (Info, ''%d packages imported to PAPI'')]) \<and>
   main node sample_world broken_backend [] sample_opts = 0"
  by code_simp

end
